theory Spec2Isabelle
  imports Complex_Main "HOL-Library.AList" "HOL-Library.Word"
begin

section \<open>Python values\<close>

text \<open>
  A Python \<open>str\<close> is a sequence of Unicode code points, so the model writes it as a list of
  naturals; \<open>ascii\<close> turns an Isabelle string literal into such a text. A Python \<open>float\<close> is an
  IEEE-754 binary64 value and is carried as its 64-bit pattern. A \<open>dict\<close> keeps its keys in
  insertion order: it is an association list with distinct keys, read with \<open>map_of\<close> and
  written with \<open>AList.update\<close> (an existing key keeps its place, a new key goes to the end).
\<close>

type_synonym pystr = "nat list"

definition ascii :: "string \<Rightarrow> pystr" where
  "ascii s = map of_char s"

datatype json =
    JNull
  | JBool bool
  | JInt int
  | JFloat "64 word"
  | JStr pystr
  | JArr "json list"
  | JObj "(pystr \<times> json) list"

type_synonym pydict = "(pystr \<times> json) list"

datatype exn =
    KeyError
  | IndexError
  | TypeError
  | AttributeError
  | ValueError
  | ZeroDivisionError
  | JSONDecodeError
  | ConnectionError
  | Timeout
  | RequestException
  | HTTPError nat

definition bind_exn :: "exn + 'a \<Rightarrow> ('a \<Rightarrow> exn + 'b) \<Rightarrow> exn + 'b" where
  "bind_exn m f = (case m of Inl e \<Rightarrow> Inl e | Inr x \<Rightarrow> f x)"

text \<open>\<open>obj[key]\<close> for a string key, \<open>obj[0]\<close>, and \<open>obj.get(key, default)\<close>, on any value.\<close>

fun getitem :: "json \<Rightarrow> pystr \<Rightarrow> exn + json" where
  "getitem (JObj d) k = (case map_of d k of None \<Rightarrow> Inl KeyError | Some v \<Rightarrow> Inr v)"
| "getitem _ k = Inl TypeError"

fun getitem0 :: "json \<Rightarrow> exn + json" where
  "getitem0 (JArr xs) = (case xs of [] \<Rightarrow> Inl IndexError | x # _ \<Rightarrow> Inr x)"
| "getitem0 (JStr s) = (case s of [] \<Rightarrow> Inl IndexError | c # _ \<Rightarrow> Inr (JStr [c]))"
| "getitem0 (JObj d) = Inl KeyError"
| "getitem0 _ = Inl TypeError"

fun py_get :: "json \<Rightarrow> pystr \<Rightarrow> json \<Rightarrow> exn + json" where
  "py_get (JObj d) k dflt = Inr (case map_of d k of None \<Rightarrow> dflt | Some v \<Rightarrow> v)"
| "py_get _ k dflt = Inl AttributeError"

definition dict_get :: "pydict \<Rightarrow> pystr \<Rightarrow> json \<Rightarrow> json" where
  "dict_get d k dflt = (case map_of d k of None \<Rightarrow> dflt | Some v \<Rightarrow> v)"

fun isinstance_dict :: "json \<Rightarrow> bool" where
  "isinstance_dict (JObj d) = True"
| "isinstance_dict _ = False"

fun isinstance_list :: "json \<Rightarrow> bool" where
  "isinstance_list (JArr xs) = True"
| "isinstance_list _ = False"

text \<open>Truthiness (\<open>bool(v)\<close>): \<open>None\<close>, \<open>False\<close>, zero and every empty container are false.\<close>

fun truthy :: "json \<Rightarrow> bool" where
  "truthy JNull = False"
| "truthy (JBool b) = b"
| "truthy (JInt i) = (i \<noteq> 0)"
| "truthy (JFloat w) = (take_bit 63 w \<noteq> 0)"
| "truthy (JStr s) = (s \<noteq> [])"
| "truthy (JArr xs) = (xs \<noteq> [])"
| "truthy (JObj d) = (d \<noteq> [])"

text \<open>
  \<open>str.strip()\<close> removes the characters for which \<open>str.isspace\<close> holds from both ends.
\<close>

definition isspace :: "nat \<Rightarrow> bool" where
  "isspace c \<longleftrightarrow>
     (9 \<le> c \<and> c \<le> 13) \<or> (28 \<le> c \<and> c \<le> 32) \<or> c = 133 \<or> c = 160 \<or> c = 5760 \<or>
     (8192 \<le> c \<and> c \<le> 8202) \<or> c = 8232 \<or> c = 8233 \<or> c = 8239 \<or> c = 8287 \<or> c = 12288"

definition lstrip :: "pystr \<Rightarrow> pystr" where
  "lstrip s = dropWhile isspace s"

definition rstrip :: "pystr \<Rightarrow> pystr" where
  "rstrip s = rev (dropWhile isspace (rev s))"

definition strip :: "pystr \<Rightarrow> pystr" where
  "strip s = rstrip (lstrip s)"

text \<open>An external HTTP exchange made with \<open>requests\<close>: no reply, or a status and a body.\<close>

datatype transport_failure = ConnectionRefused | TimedOut | OtherTransportError

datatype http_reply =
    Failed transport_failure
  | Reply nat "json option"

text \<open>\<open>Reply status body\<close>: \<open>body\<close> is what \<open>response.json()\<close> returns, \<open>None\<close> when the body is not JSON.\<close>

fun transport_exn :: "transport_failure \<Rightarrow> exn" where
  "transport_exn ConnectionRefused = ConnectionError"
| "transport_exn TimedOut = Timeout"
| "transport_exn OtherTransportError = RequestException"

definition raise_for_status :: "nat \<Rightarrow> bool" where
  "raise_for_status status \<longleftrightarrow> 400 \<le> status \<and> status < 600"

section \<open>Analytics service\<close>

subsection \<open>Normalisation of the model response (\<open>parse_ai_response\<close>)\<close>

definition fence :: pystr where
  "fence = ascii ''```''"

definition fence_json :: pystr where
  "fence_json = ascii ''```json''"

text \<open>
  \<open>re.sub(r'```json|```', '', text)\<close>: scanning from the left, at each position try the first
  alternative, then the second; a match is deleted and scanning resumes after it.
\<close>

function re_sub_fences :: "pystr \<Rightarrow> pystr" where
  "re_sub_fences [] = []"
| "re_sub_fences (c # cs) =
     (if take 7 (c # cs) = fence_json then re_sub_fences (drop 7 (c # cs))
      else if take 3 (c # cs) = fence then re_sub_fences (drop 3 (c # cs))
      else c # re_sub_fences cs)"
  by pat_completeness auto
termination
  by (relation "measure length") auto

text \<open>
  \<open>re.search(r'\{.*\}', s, re.DOTALL)\<close>: with \<open>DOTALL\<close> the greedy \<open>.*\<close> runs over every
  character, so the leftmost match starts at the first opening brace and ends at the last
  closing brace behind it; there is no match when no closing brace follows the first opening
  brace. The result is \<open>match.group(0)\<close>.
\<close>

definition lbrace :: nat where "lbrace = 123"
definition rbrace :: nat where "rbrace = 125"

definition re_search_braces :: "pystr \<Rightarrow> pystr option" where
  "re_search_braces s =
     (case dropWhile (\<lambda>c. c \<noteq> lbrace) s of
        [] \<Rightarrow> None
      | b # rest \<Rightarrow>
          (case dropWhile (\<lambda>c. c \<noteq> rbrace) (rev rest) of
             [] \<Rightarrow> None
           | e # body \<Rightarrow> Some (b # rev (e # body))))"

definition default_summary :: pystr where
  "default_summary =
     [1040, 1085, 1072, 1083, 1080, 1079, 32, 1079, 1072, 1074, 1077, 1088, 1096, 1077, 1085]"

definition default_recommendation :: pystr where
  "default_recommendation =
     [1055, 1088, 1086, 1076, 1086, 1083, 1078, 1072, 1081, 1090, 1077, 32, 1084, 1086, 1085,
      1080, 1090, 1086, 1088, 1080, 1085, 1075, 32, 1088, 1077, 1087, 1086, 1079, 1080, 1090,
      1086, 1088, 1080, 1103]"

definition insights_with :: "pystr \<Rightarrow> json" where
  "insights_with score =
     JObj [(ascii ''strengths'', JArr []), (ascii ''weaknesses'', JArr []),
           (ascii ''trends'', JArr []), (ascii ''health_score'', JStr score)]"

definition default_insights :: json where
  "default_insights = insights_with (ascii ''5'')"

definition default_recommendations :: json where
  "default_recommendations = JArr [JStr default_recommendation]"

definition default_res :: "json \<Rightarrow> pydict" where
  "default_res text =
     [(ascii ''summary'', JStr default_summary),
      (ascii ''analysis'', text),
      (ascii ''insights'', default_insights),
      (ascii ''recommendations'', default_recommendations)]"

text \<open>
  Step 3 of the source, on the parsed dictionary: a missing or wrongly typed \<open>insights\<close> or
  \<open>recommendations\<close> entry is overwritten with the default.
\<close>

definition repair :: "pydict \<Rightarrow> pydict" where
  "repair data =
     (let data1 =
            (if (case map_of data (ascii ''insights'') of
                   None \<Rightarrow> True | Some v \<Rightarrow> \<not> isinstance_dict v)
             then AList.update (ascii ''insights'') default_insights data else data)
      in if (case map_of data1 (ascii ''recommendations'') of
               None \<Rightarrow> True | Some v \<Rightarrow> \<not> isinstance_list v)
         then AList.update (ascii ''recommendations'') default_recommendations data1
         else data1)"

text \<open>
  \<open>json.loads\<close> belongs to the standard library and is a parameter \<open>loads\<close>: \<open>None\<close> stands for
  any exception it raises. Every exception inside the \<open>try\<close> block ends in \<open>default_res\<close>: a
  text that is not a \<open>str\<close> makes \<open>re.sub\<close> raise \<open>TypeError\<close>, and a parsed value that is not a
  dictionary makes the membership test or the item assignment raise \<open>TypeError\<close>.
\<close>

fun parse_ai_response :: "(pystr \<Rightarrow> json option) \<Rightarrow> json \<Rightarrow> pydict" where
  "parse_ai_response loads (JStr text) =
     (let clean_text = strip (re_sub_fences text) in
      case re_search_braces clean_text of
        None \<Rightarrow> default_res (JStr text)
      | Some json_str \<Rightarrow>
          (case loads json_str of
             Some (JObj data) \<Rightarrow> repair data
           | _ \<Rightarrow> default_res (JStr text)))"
| "parse_ai_response loads text = default_res text"

subsection \<open>The endpoint \<open>POST /analyze\<close> (\<open>analyze_with_ai\<close>)\<close>

text \<open>
  The environment of the service: the configured key, the completion endpoint as a function
  from the prompt sent to the reply received, and the library functions \<open>json.loads\<close>,
  \<open>json.dumps\<close>, \<open>str\<close> of a value (as an f-string formats it) and \<open>str\<close> of an exception.
\<close>

record analytics_env =
  MISTRAL_API_KEY :: pystr
  mistral_post :: "pystr \<Rightarrow> http_reply"
  json_loads :: "pystr \<Rightarrow> json option"
  json_dumps :: "json \<Rightarrow> pystr"
  py_format :: "json \<Rightarrow> pystr"
  exn_text :: "exn \<Rightarrow> pystr"

record AnalyticsRequest =
  repo_name :: pystr
  owner :: pystr
  activity_data :: pydict

text \<open>An f-string is the concatenation of its pieces, evaluated from left to right.\<close>

fun fstring :: "(exn + pystr) list \<Rightarrow> exn + pystr" where
  "fstring [] = Inr []"
| "fstring (p # ps) =
     bind_exn p (\<lambda>s. bind_exn (fstring ps) (\<lambda>t. Inr (s @ t)))"

definition lit :: "string \<Rightarrow> exn + pystr" where
  "lit s = Inr (ascii s)"

definition fmt_get :: "analytics_env \<Rightarrow> exn + json \<Rightarrow> pystr \<Rightarrow> exn + pystr" where
  "fmt_get env obj k =
     bind_exn obj (\<lambda>ob. bind_exn (py_get ob k JNull) (\<lambda>v. Inr (py_format env v)))"

definition newline_indent :: "exn + pystr" where
  "newline_indent = Inr (10 # ascii ''    '')"

definition prepare_activity_summary :: "analytics_env \<Rightarrow> pydict \<Rightarrow> exn + pystr" where
  "prepare_activity_summary env data =
     (let d = Inr (JObj data);
          repo_info = py_get (JObj data) (ascii ''repo_info'') (JObj []);
          commit_stats = py_get (JObj data) (ascii ''commit_stats'') (JObj []);
          sub = (\<lambda>k. py_get (JObj data) (ascii k) (JObj []))
      in bind_exn (fstring
           [newline_indent,
            lit ''Repo: '', fmt_get env repo_info (ascii ''full_name''),
            lit '' | Stars: '', fmt_get env repo_info (ascii ''stargazers_count''),
            newline_indent,
            lit ''Period: '', fmt_get env d (ascii ''analysis_period_days''),
            lit '' days | Total Commits: '', fmt_get env commit_stats (ascii ''total_commits''),
            newline_indent,
            lit ''Activity Index: '', fmt_get env d (ascii ''activity_index''),
            lit ''% | Authors: '', fmt_get env d (ascii ''total_contributors''),
            newline_indent,
            lit ''Languages: '',
            bind_exn (sub ''language_stats'') (\<lambda>ls.
              bind_exn (py_get ls (ascii ''languages'') (JObj [])) (\<lambda>v. Inr (json_dumps env v))),
            newline_indent,
            lit ''Issues O/C: '', fmt_get env (sub ''issue_stats'') (ascii ''open_issues''),
            lit ''/'', fmt_get env (sub ''issue_stats'') (ascii ''closed_issues''),
            newline_indent,
            lit ''PRs O/M: '', fmt_get env (sub ''pr_stats'') (ascii ''open_prs''),
            lit ''/'', fmt_get env (sub ''pr_stats'') (ascii ''merged_prs''),
            newline_indent])
          (\<lambda>summary. Inr (strip summary)))"

text \<open>The fixed text of the prompt before the owner and after the activity summary.\<close>

definition prompt_head :: pystr where
  "prompt_head =
     [1058, 1099, 32, 45, 32, 1101, 1082, 1089, 1087, 1077, 1088, 1090, 45, 1072, 1085, 1072, 1083,
      1080, 1090, 1080, 1082, 32, 79, 112, 101, 110, 32, 83, 111, 117, 114, 99, 101, 32, 1087, 1088,
      1086, 1077, 1082, 1090, 1086, 1074, 46, 32, 1055, 1088, 1086, 1072, 1085, 1072, 1083, 1080,
      1079, 1080, 1088, 1091, 1081, 32, 1076, 1072, 1085, 1085, 1099, 1077, 32, 1088, 1077, 1087,
      1086, 1079, 1080, 1090, 1086, 1088, 1080, 1103, 32]"

definition prompt_tail :: pystr where
  "prompt_tail =
     [10, 10, 1047, 1040, 1044, 1040, 1063, 1040, 58, 32, 1057, 1092, 1086, 1088, 1084, 1080, 1088,
      1091, 1081, 32, 1075, 1083, 1091, 1073, 1086, 1082, 1080, 1081, 32, 1090, 1077, 1093, 1085,
      1080, 1095, 1077, 1089, 1082, 1080, 1081, 32, 1086, 1090, 1095, 1077, 1090, 46, 10, 1058,
      1056, 1045, 1041, 1054, 1042, 1040, 1053, 1048, 1071, 32, 1050, 32, 1060, 1054, 1056, 1052,
      1040, 1058, 1059, 58, 10, 49, 46, 32, 1054, 1090, 1074, 1077, 1090, 32, 1076, 1086, 1083,
      1078, 1077, 1085, 32, 1073, 1099, 1090, 1100, 32, 1057, 1058, 1056, 1054, 1043, 1054, 32,
      1074, 32, 1092, 1086, 1088, 1084, 1072, 1090, 1077, 32, 74, 83, 79, 78, 46, 10, 50, 46, 32,
      1053, 1048, 1050, 1040, 1050, 1054, 1043, 1054, 32, 1083, 1080, 1096, 1085, 1077, 1075, 1086,
      32, 1090, 1077, 1082, 1089, 1090, 1072, 44, 32, 1087, 1086, 1103, 1089, 1085, 1077, 1085,
      1080, 1081, 32, 1080, 1083, 1080, 32, 109, 97, 114, 107, 100, 111, 119, 110, 45, 1090, 1077,
      1075, 1086, 1074, 32, 96, 96, 96, 106, 115, 111, 110, 32, 1074, 32, 1086, 1090, 1074, 1077,
      1090, 1077, 46, 10, 51, 46, 32, 1042, 1089, 1077, 32, 1087, 1077, 1088, 1077, 1085, 1086,
      1089, 1099, 32, 1089, 1090, 1088, 1086, 1082, 32, 1074, 1085, 1091, 1090, 1088, 1080, 32,
      1090, 1077, 1082, 1089, 1090, 1086, 1074, 1099, 1093, 32, 1087, 1086, 1083, 1077, 1081, 32,
      1076, 1086, 1083, 1078, 1085, 1099, 32, 1073, 1099, 1090, 1100, 32, 1101, 1082, 1088, 1072,
      1085, 1080, 1088, 1086, 1074, 1072, 1085, 1099, 32, 1082, 1072, 1082, 32, 92, 110, 46, 10, 10,
      1057, 1058, 1056, 1059, 1050, 1058, 1059, 1056, 1040, 32, 74, 83, 79, 78, 32, 40, 1086, 1090,
      1087, 1088, 1072, 1074, 1100, 32, 1090, 1086, 1083, 1100, 1082, 1086, 32, 1077, 1105, 41, 58,
      10, 123, 10, 32, 32, 32, 32, 34, 115, 117, 109, 109, 97, 114, 121, 34, 58, 32, 34, 1050, 1088,
      1072, 1090, 1082, 1086, 1077, 32, 1088, 1077, 1079, 1102, 1084, 1077, 32, 40, 50, 45, 51, 32,
      1087, 1088, 1077, 1076, 1083, 1086, 1078, 1077, 1085, 1080, 1103, 41, 34, 44, 10, 32, 32, 32,
      32, 34, 97, 110, 97, 108, 121, 115, 105, 115, 34, 58, 32, 34, 1044, 1077, 1090, 1072, 1083,
      1100, 1085, 1099, 1081, 32, 1090, 1077, 1082, 1089, 1090, 32, 1088, 1072, 1079, 1073, 1086,
      1088, 1072, 32, 40, 1085, 1077, 32, 1084, 1077, 1085, 1077, 1077, 32, 52, 32, 1072, 1073,
      1079, 1072, 1094, 1077, 1074, 41, 46, 32, 1054, 1073, 1089, 1091, 1076, 1080, 32, 1076, 1080,
      1085, 1072, 1084, 1080, 1082, 1091, 32, 1082, 1086, 1084, 1084, 1080, 1090, 1086, 1074, 44,
      32, 1088, 1072, 1073, 1086, 1090, 1091, 32, 1089, 32, 73, 115, 115, 117, 101, 115, 32, 1080,
      32, 80, 82, 44, 32, 1080, 32, 1089, 1090, 1077, 1082, 32, 1090, 1077, 1093, 1085, 1086, 1083,
      1086, 1075, 1080, 1081, 46, 34, 44, 10, 32, 32, 32, 32, 34, 105, 110, 115, 105, 103, 104, 116,
      115, 34, 58, 32, 123, 10, 32, 32, 32, 32, 32, 32, 32, 32, 34, 115, 116, 114, 101, 110, 103,
      116, 104, 115, 34, 58, 32, 91, 34, 1089, 1087, 1080, 1089, 1086, 1082, 34, 44, 32, 34, 1089,
      1080, 1083, 1100, 1085, 1099, 1093, 34, 44, 32, 34, 1089, 1090, 1086, 1088, 1086, 1085, 34,
      93, 44, 10, 32, 32, 32, 32, 32, 32, 32, 32, 34, 119, 101, 97, 107, 110, 101, 115, 115, 101,
      115, 34, 58, 32, 91, 34, 1089, 1087, 1080, 1089, 1086, 1082, 34, 44, 32, 34, 1087, 1088, 1086,
      1073, 1083, 1077, 1084, 34, 93, 44, 10, 32, 32, 32, 32, 32, 32, 32, 32, 34, 116, 114, 101,
      110, 100, 115, 34, 58, 32, 91, 34, 1085, 1072, 1087, 1088, 1072, 1074, 1083, 1077, 1085, 1080,
      1103, 34, 44, 32, 34, 1088, 1072, 1079, 1074, 1080, 1090, 1080, 1103, 34, 93, 44, 10, 32, 32,
      32, 32, 32, 32, 32, 32, 34, 104, 101, 97, 108, 116, 104, 95, 115, 99, 111, 114, 101, 34, 58,
      32, 34, 1095, 1080, 1089, 1083, 1086, 32, 1086, 1090, 32, 49, 32, 1076, 1086, 32, 49, 48, 34,
      10, 32, 32, 32, 32, 125, 44, 10, 32, 32, 32, 32, 34, 114, 101, 99, 111, 109, 109, 101, 110,
      100, 97, 116, 105, 111, 110, 115, 34, 58, 32, 91, 34, 1050, 1086, 1085, 1082, 1088, 1077,
      1090, 1085, 1099, 1081, 32, 1089, 1086, 1074, 1077, 1090, 32, 49, 34, 44, 32, 34, 1050, 1086,
      1085, 1082, 1088, 1077, 1090, 1085, 1099, 1081, 32, 1089, 1086, 1074, 1077, 1090, 32, 50, 34,
      44, 32, 34, 1050, 1086, 1085, 1082, 1088, 1077, 1090, 1085, 1099, 1081, 32, 1089, 1086, 1074,
      1077, 1090, 32, 51, 34, 93, 10, 125, 10]"

definition create_analysis_prompt :: "pystr \<Rightarrow> pystr \<Rightarrow> pystr \<Rightarrow> pystr" where
  "create_analysis_prompt ownr repo activity_summary =
     prompt_head @ ownr @ ascii ''/'' @ repo @ [58, 10] @ activity_summary @ prompt_tail"

text \<open>
  \<open>call_mistral_api\<close>: a transport failure, an error status, a body that is not JSON and a
  body of another shape each raise; otherwise the content of the first choice is returned,
  whatever its type.
\<close>

definition call_mistral_api :: "analytics_env \<Rightarrow> pystr \<Rightarrow> exn + json" where
  "call_mistral_api env prompt =
     (case mistral_post env prompt of
        Failed f \<Rightarrow> Inl (transport_exn f)
      | Reply status body \<Rightarrow>
          if raise_for_status status then Inl (HTTPError status)
          else (case body of
                  None \<Rightarrow> Inl JSONDecodeError
                | Some j \<Rightarrow>
                    bind_exn (getitem j (ascii ''choices'')) (\<lambda>choices.
                    bind_exn (getitem0 choices) (\<lambda>choice.
                    bind_exn (getitem choice (ascii ''message'')) (\<lambda>message.
                    getitem message (ascii ''content''))))))"

definition fallback_analysis_1 :: pystr where
  "fallback_analysis_1 = [1055, 1088, 1086, 1077, 1082, 1090, 32]"

definition fallback_analysis_2 :: pystr where
  "fallback_analysis_2 =
     [32, 1087, 1086, 1082, 1072, 1079, 1099, 1074, 1072, 1077, 1090, 32, 1080, 1085, 1076,
      1077, 1082, 1089, 32, 1072, 1082, 1090, 1080, 1074, 1085, 1086, 1089, 1090, 1080, 32]"

definition generate_fallback_analysis :: "analytics_env \<Rightarrow> pydict \<Rightarrow> pystr" where
  "generate_fallback_analysis env data =
     fallback_analysis_1 @ py_format env (dict_get data (ascii ''repo_name'') JNull) @
     fallback_analysis_2 @ py_format env (dict_get data (ascii ''activity_index'') (JInt 0)) @
     ascii ''%.''"

definition fallback_recommendation_1 :: pystr where
  "fallback_recommendation_1 =
     [1059, 1074, 1077, 1083, 1080, 1095, 1100, 1090, 1077, 32, 1095, 1072, 1089, 1090, 1086,
      1090, 1091, 32, 1082, 1086, 1084, 1084, 1080, 1090, 1086, 1074]"

definition fallback_recommendation_2 :: pystr where
  "fallback_recommendation_2 =
     [1047, 1072, 1082, 1088, 1086, 1081, 1090, 1077, 32, 1091, 1089, 1090, 1072, 1088, 1077,
      1074, 1096, 1080, 1077, 32, 73, 115, 115, 117, 101, 115]"

definition generate_fallback_recommendations :: "pydict \<Rightarrow> json" where
  "generate_fallback_recommendations data =
     JArr [JStr fallback_recommendation_1, JStr fallback_recommendation_2]"

definition not_configured_summary :: pystr where
  "not_configured_summary =
     [65, 73, 32, 1089, 1077, 1088, 1074, 1080, 1089, 32, 1085, 1077, 32, 1085, 1072, 1089,
      1090, 1088, 1086, 1077, 1085]"

definition error_summary :: pystr where
  "error_summary =
     [1054, 1096, 1080, 1073, 1082, 1072, 32, 1087, 1088, 1080, 32, 1075, 1077, 1085, 1077,
      1088, 1072, 1094, 1080, 1080, 32, 1072, 1085, 1072, 1083, 1080, 1090, 1080, 1082, 1080]"

definition fallback_response :: "analytics_env \<Rightarrow> pydict \<Rightarrow> pystr \<Rightarrow> pystr \<Rightarrow> pystr \<Rightarrow> pydict" where
  "fallback_response env data err score summary =
     [(ascii ''success'', JBool False),
      (ascii ''error'', JStr err),
      (ascii ''analysis'', JStr (generate_fallback_analysis env data)),
      (ascii ''recommendations'', generate_fallback_recommendations data),
      (ascii ''insights'', insights_with score),
      (ascii ''summary'', JStr summary)]"

text \<open>The body of the \<open>try\<close> block: \<open>Inl\<close> is the exception that reaches the handler.\<close>

definition analyze_try :: "analytics_env \<Rightarrow> AnalyticsRequest \<Rightarrow> exn + pydict" where
  "analyze_try env request =
     bind_exn (prepare_activity_summary env (activity_data request)) (\<lambda>activity_summary.
     bind_exn (call_mistral_api env
                 (create_analysis_prompt (owner request) (repo_name request) activity_summary))
       (\<lambda>ai_response_text.
     let analysis_result = JObj (parse_ai_response (json_loads env) ai_response_text) in
     bind_exn (getitem analysis_result (ascii ''analysis'')) (\<lambda>a.
     bind_exn (getitem analysis_result (ascii ''recommendations'')) (\<lambda>r.
     bind_exn (getitem analysis_result (ascii ''insights'')) (\<lambda>i.
     bind_exn (getitem analysis_result (ascii ''summary'')) (\<lambda>s.
     Inr [(ascii ''success'', JBool True),
          (ascii ''analysis'', a),
          (ascii ''recommendations'', r),
          (ascii ''insights'', i),
          (ascii ''summary'', s)]))))))"

definition analyze_with_ai :: "analytics_env \<Rightarrow> AnalyticsRequest \<Rightarrow> pydict" where
  "analyze_with_ai env request =
     (if MISTRAL_API_KEY env = [] then
        fallback_response env (activity_data request)
          (ascii ''Mistral API key not configured'') (ascii ''N/A'') not_configured_summary
      else
        (case analyze_try env request of
           Inr result \<Rightarrow> result
         | Inl e \<Rightarrow>
             fallback_response env (activity_data request)
               (exn_text env e) (ascii ''0'') error_summary))"

subsection \<open>Shapes of responses\<close>

text \<open>
  A response text takes the JSON branch of \<open>parse_ai_response\<close> when a brace span is found in
  the cleaned text and \<open>json.loads\<close> returns a dictionary for it. \<open>fenced ws1 payload ws2\<close> is
  the payload between an opening \<open>```json\<close> and a closing \<open>```\<close> marker, separated from them
  by the whitespace \<open>ws1\<close> and \<open>ws2\<close>.
\<close>

definition parses_as_object :: "(pystr \<Rightarrow> json option) \<Rightarrow> pystr \<Rightarrow> bool" where
  "parses_as_object loads s =
     (case re_search_braces (strip (re_sub_fences s)) of
        None \<Rightarrow> False
      | Some json_str \<Rightarrow> (case loads json_str of Some (JObj data) \<Rightarrow> True | _ \<Rightarrow> False))"

definition fenced :: "pystr \<Rightarrow> pystr \<Rightarrow> pystr \<Rightarrow> pystr" where
  "fenced ws1 payload ws2 = fence_json @ ws1 @ payload @ ws2 @ fence"

text \<open>A text contains a fence marker when three backticks occur somewhere in it.\<close>

fun has_fence :: "pystr \<Rightarrow> bool" where
  "has_fence [] = False"
| "has_fence (c # cs) = (take 3 (c # cs) = fence \<or> has_fence cs)"

text \<open>The two nested entries after the repair step, read off the parsed dictionary.\<close>

definition repaired_insights :: "pydict \<Rightarrow> json" where
  "repaired_insights data =
     (case map_of data (ascii ''insights'') of Some (JObj i) \<Rightarrow> JObj i | _ \<Rightarrow> default_insights)"

definition repaired_recommendations :: "pydict \<Rightarrow> json" where
  "repaired_recommendations data =
     (case map_of data (ascii ''recommendations'') of
        Some (JArr r) \<Rightarrow> JArr r | _ \<Rightarrow> default_recommendations)"

text \<open>
  The body of a chat completion whose first choice carries \<open>content\<close>, as the completion
  endpoint sends it with status 200.
\<close>

definition chat_completion :: "json \<Rightarrow> http_reply" where
  "chat_completion content =
     Reply 200 (Some (JObj [(ascii ''choices'',
       JArr [JObj [(ascii ''message'', JObj [(ascii ''content'', content)])]])]))"

section \<open>A reference decoder for JSON texts\<close>

text \<open>
  \<open>json.loads\<close> is a parameter of the model. To evaluate the model on a concrete text, this
  section decodes the JSON grammar the way the standard decoder does: surrounding whitespace
  is skipped, a repeated key keeps its first position and its last value, a control
  character inside a string is an error, and the conversion of a number with a fraction or an
  exponent is left to the parameter \<open>parse_float\<close>. The recursion is bounded by a counter
  that \<open>json_decode\<close> starts at twice the length of the text, which no text exhausts: every
  second step consumes a character.
\<close>

definition json_ws :: "nat \<Rightarrow> bool" where
  "json_ws c \<longleftrightarrow> c = 32 \<or> c = 9 \<or> c = 10 \<or> c = 13"

definition skip_ws :: "pystr \<Rightarrow> pystr" where
  "skip_ws s = dropWhile json_ws s"

definition is_digit :: "nat \<Rightarrow> bool" where
  "is_digit c \<longleftrightarrow> 48 \<le> c \<and> c \<le> 57"

definition hex_value :: "nat \<Rightarrow> nat option" where
  "hex_value c =
     (if 48 \<le> c \<and> c \<le> 57 then Some (c - 48)
      else if 97 \<le> c \<and> c \<le> 102 then Some (c - 87)
      else if 65 \<le> c \<and> c \<le> 70 then Some (c - 55)
      else None)"

fun hex4 :: "pystr \<Rightarrow> (nat \<times> pystr) option" where
  "hex4 (a # b # c # d # rest) =
     (case (hex_value a, hex_value b, hex_value c, hex_value d) of
        (Some x, Some y, Some z, Some w) \<Rightarrow> Some (((x * 16 + y) * 16 + z) * 16 + w, rest)
      | _ \<Rightarrow> None)"
| "hex4 _ = None"

definition simple_escape :: "nat \<Rightarrow> nat option" where
  "simple_escape c =
     (if c = 34 then Some 34 else if c = 92 then Some 92 else if c = 47 then Some 47
      else if c = 98 then Some 8 else if c = 102 then Some 12 else if c = 110 then Some 10
      else if c = 114 then Some 13 else if c = 116 then Some 9 else None)"

definition unicode_escape :: "pystr \<Rightarrow> (nat \<times> pystr) option" where
  "unicode_escape s =
     (case hex4 s of
        None \<Rightarrow> None
      | Some (u, rest) \<Rightarrow>
          if 55296 \<le> u \<and> u \<le> 56319 then
            (case rest of
               bs # lu # rest2 \<Rightarrow>
                 if bs = 92 \<and> lu = 117 then
                   (case hex4 rest2 of
                      None \<Rightarrow> None
                    | Some (u2, rest3) \<Rightarrow>
                        if 56320 \<le> u2 \<and> u2 \<le> 57343
                        then Some (65536 + (u - 55296) * 1024 + (u2 - 56320), rest3)
                        else Some (u, rest))
                 else Some (u, rest)
             | _ \<Rightarrow> Some (u, rest))
          else Some (u, rest))"

function scanstring :: "pystr \<Rightarrow> pystr \<Rightarrow> (pystr \<times> pystr) option" where
  "scanstring [] acc = None"
| "scanstring (c # cs) acc =
     (if c = 34 then Some (rev acc, cs)
      else if c = 92 then
        (case cs of
           [] \<Rightarrow> None
         | e # es \<Rightarrow>
             if e = 117 then
               (case unicode_escape es of
                  None \<Rightarrow> None
                | Some (u, rest) \<Rightarrow>
                    if length rest < length es then scanstring rest (u # acc) else None)
             else
               (case simple_escape e of
                  None \<Rightarrow> None
                | Some x \<Rightarrow> scanstring es (x # acc)))
      else if c < 32 then None
      else scanstring cs (c # acc))"
  by pat_completeness auto
termination
  by (relation "measure (\<lambda>(s, acc). length s)") auto


definition digits_value :: "pystr \<Rightarrow> int" where
  "digits_value ds = foldl (\<lambda>a c. a * 10 + (int c - 48)) 0 ds"

text \<open>The integer part of a number: one zero, or a non-zero digit and further digits.\<close>

definition match_int :: "pystr \<Rightarrow> (pystr \<times> pystr) option" where
  "match_int s =
     (case s of
        [] \<Rightarrow> None
      | c # cs \<Rightarrow>
          if c = 48 then Some ([c], cs)
          else if 49 \<le> c \<and> c \<le> 57
          then Some (c # takeWhile is_digit cs, dropWhile is_digit cs)
          else None)"

definition match_frac :: "pystr \<Rightarrow> pystr \<times> pystr" where
  "match_frac s =
     (case s of
        dot # d # rest \<Rightarrow>
          if dot = 46 \<and> is_digit d
          then (dot # d # takeWhile is_digit rest, dropWhile is_digit rest)
          else ([], s)
      | _ \<Rightarrow> ([], s))"

definition match_exp :: "pystr \<Rightarrow> pystr \<times> pystr" where
  "match_exp s =
     (case s of
        [] \<Rightarrow> ([], s)
      | e # rest \<Rightarrow>
          if e = 101 \<or> e = 69 then
            (let (sign, rest1) =
                   (case rest of
                      [] \<Rightarrow> ([], rest)
                    | g # r \<Rightarrow> if g = 43 \<or> g = 45 then ([g], r) else ([], rest))
             in if takeWhile is_digit rest1 = [] then ([], s)
                else (e # sign @ takeWhile is_digit rest1, dropWhile is_digit rest1))
          else ([], s))"

definition match_number :: "(pystr \<Rightarrow> 64 word) \<Rightarrow> pystr \<Rightarrow> (json \<times> pystr) option" where
  "match_number parse_float s =
     (let (neg, s1) = (case s of [] \<Rightarrow> (False, s) | c # cs \<Rightarrow> if c = 45 then (True, cs) else (False, s))
      in case match_int s1 of
           None \<Rightarrow> None
         | Some (ip, s2) \<Rightarrow>
             (let (frac, s3) = match_frac s2; (ex, s4) = match_exp s3
              in if frac = [] \<and> ex = []
                 then Some (JInt (if neg then - digits_value ip else digits_value ip), s2)
                 else Some (JFloat (parse_float ((if neg then [45] else []) @ ip @ frac @ ex)), s4)))"

definition float_nan :: "64 word" where "float_nan = 0x7FF8000000000000"
definition float_inf :: "64 word" where "float_inf = 0x7FF0000000000000"
definition float_neg_inf :: "64 word" where "float_neg_inf = 0xFFF0000000000000"

definition starts_with :: "string \<Rightarrow> pystr \<Rightarrow> bool" where
  "starts_with w s \<longleftrightarrow> take (length w) s = ascii w"

definition scan_atom :: "(pystr \<Rightarrow> 64 word) \<Rightarrow> pystr \<Rightarrow> (json \<times> pystr) option" where
  "scan_atom parse_float s =
     (if starts_with ''null'' s then Some (JNull, drop 4 s)
      else if starts_with ''true'' s then Some (JBool True, drop 4 s)
      else if starts_with ''false'' s then Some (JBool False, drop 5 s)
      else case match_number parse_float s of
             Some r \<Rightarrow> Some r
           | None \<Rightarrow>
               if starts_with ''NaN'' s then Some (JFloat float_nan, drop 3 s)
               else if starts_with ''Infinity'' s then Some (JFloat float_inf, drop 8 s)
               else if starts_with ''-Infinity'' s then Some (JFloat float_neg_inf, drop 9 s)
               else None)"

fun scan_once :: "(pystr \<Rightarrow> 64 word) \<Rightarrow> nat \<Rightarrow> pystr \<Rightarrow> (json \<times> pystr) option"
and parse_array :: "(pystr \<Rightarrow> 64 word) \<Rightarrow> nat \<Rightarrow> pystr \<Rightarrow> json list \<Rightarrow> (json \<times> pystr) option"
and parse_object :: "(pystr \<Rightarrow> 64 word) \<Rightarrow> nat \<Rightarrow> pystr \<Rightarrow> pydict \<Rightarrow> (json \<times> pystr) option"
where
  "scan_once pf 0 s = None"
| "scan_once pf (Suc n) s =
     (case s of
        [] \<Rightarrow> None
      | c # cs \<Rightarrow>
          if c = 34 then
            (case scanstring cs [] of None \<Rightarrow> None | Some (str, rest) \<Rightarrow> Some (JStr str, rest))
          else if c = 123 then
            (case skip_ws cs of
               [] \<Rightarrow> None
             | d # ds \<Rightarrow> if d = 125 then Some (JObj [], ds) else parse_object pf n (d # ds) [])
          else if c = 91 then
            (case skip_ws cs of
               [] \<Rightarrow> None
             | d # ds \<Rightarrow> if d = 93 then Some (JArr [], ds) else parse_array pf n (d # ds) [])
          else scan_atom pf s)"
| "parse_array pf 0 s acc = None"
| "parse_array pf (Suc n) s acc =
     (case scan_once pf n s of
        None \<Rightarrow> None
      | Some (v, rest) \<Rightarrow>
          (case skip_ws rest of
             [] \<Rightarrow> None
           | d # ds \<Rightarrow>
               if d = 93 then Some (JArr (rev (v # acc)), ds)
               else if d = 44 then parse_array pf n (skip_ws ds) (v # acc)
               else None))"
| "parse_object pf 0 s pairs = None"
| "parse_object pf (Suc n) s pairs =
     (case s of
        [] \<Rightarrow> None
      | q # cs \<Rightarrow>
          if q \<noteq> 34 then None
          else (case scanstring cs [] of
                  None \<Rightarrow> None
                | Some (key, rest) \<Rightarrow>
                    (case skip_ws rest of
                       [] \<Rightarrow> None
                     | colon # r1 \<Rightarrow>
                         if colon \<noteq> 58 then None
                         else (case scan_once pf n (skip_ws r1) of
                                 None \<Rightarrow> None
                               | Some (v, r2) \<Rightarrow>
                                   (case skip_ws r2 of
                                      [] \<Rightarrow> None
                                    | d # ds \<Rightarrow>
                                        if d = 125
                                        then Some (JObj (AList.update key v pairs), ds)
                                        else if d = 44
                                        then parse_object pf n (skip_ws ds) (AList.update key v pairs)
                                        else None)))))"

definition json_decode :: "(pystr \<Rightarrow> 64 word) \<Rightarrow> pystr \<Rightarrow> json option" where
  "json_decode pf s =
     (case scan_once pf (2 * length s + 2) (skip_ws s) of
        None \<Rightarrow> None
      | Some (v, rest) \<Rightarrow> if skip_ws rest = [] then Some v else None)"

text \<open>
  A sample environment: a configured key, an endpoint that answers every prompt with
  \<open>reply\<close>, the reference decoder, and library formatters that print nothing.
\<close>

definition sample_env :: "http_reply \<Rightarrow> analytics_env" where
  "sample_env reply =
     \<lparr>MISTRAL_API_KEY = ascii ''key'', mistral_post = (\<lambda>prompt. reply),
      json_loads = json_decode (\<lambda>lexeme. 0), json_dumps = (\<lambda>v. []),
      py_format = (\<lambda>v. []), exn_text = (\<lambda>e. [])\<rparr>"

definition sample_request :: AnalyticsRequest where
  "sample_request = \<lparr>repo_name = ascii ''repo'', owner = ascii ''octo'', activity_data = []\<rparr>"

text \<open>Sample response texts of the completion endpoint.\<close>

definition reply_full :: pystr where
  \<open>reply_full = ascii ''{"summary":"s","analysis":"a","insights":{},"recommendations":[]}''\<close>

definition reply_with_fence :: pystr where
  \<open>reply_with_fence =
     ascii ''{"summary":"s","analysis":"```","insights":{},"recommendations":[]}''\<close>

definition reply_with_fence_cleaned :: pystr where
  \<open>reply_with_fence_cleaned =
     ascii ''{"summary":"s","analysis":"","insights":{},"recommendations":[]}''\<close>

definition reply_missing_summary :: pystr where
  \<open>reply_missing_summary = ascii ''{"analysis": "a", "insights": {}}''\<close>

definition reply_mistyped_summary :: pystr where
  \<open>reply_mistyped_summary = ascii ''{"summary": 1, "analysis": "a"}''\<close>

definition reply_fence_between :: pystr where
  \<open>reply_fence_between = ascii ''{"summary": "s", ```"analysis": "a"}''\<close>

definition reply_fence_between_cleaned :: pystr where
  \<open>reply_fence_between_cleaned = ascii ''{"summary": "s", "analysis": "a"}''\<close>

section \<open>API gateway\<close>

text \<open>
  The three services are reached through base URLs taken from the configuration; a URL is
  written as the service it addresses and the path. The network answers a request with a
  reply. An \<open>HTTPException\<close> is kept as its status code; its detail text is not modelled.
\<close>

datatype service = GitHubService | AnalyticsService | DatabaseService

type_synonym call = "service \<times> pystr \<times> json"

type_synonym network = "service \<Rightarrow> pystr \<Rightarrow> json \<Rightarrow> http_reply"

datatype http_exception = HTTPException nat

record AnalysisRequest =
  req_owner :: pystr
  req_repo_name :: pystr
  start_date :: pystr
  end_date :: pystr

text \<open>
  \<open>call_service\<close> with method \<open>POST\<close>. Status 404 is raised as 404, a timeout as 504, and every
  other \<open>RequestException\<close> as 502: a transport failure, an error status, and a body that is not
  JSON (\<open>response.json()\<close> raises a \<open>RequestException\<close> of its own).
\<close>

definition reply_to :: "network \<Rightarrow> call \<Rightarrow> http_reply" where
  "reply_to net c = (case c of (svc, path, json_data) \<Rightarrow> net svc path json_data)"

definition call_service :: "network \<Rightarrow> call \<Rightarrow> http_exception + json" where
  "call_service net c =
     (case reply_to net c of
        Failed f \<Rightarrow>
          (case f of TimedOut \<Rightarrow> Inl (HTTPException 504) | _ \<Rightarrow> Inl (HTTPException 502))
      | Reply status body \<Rightarrow>
          if status = 404 then Inl (HTTPException 404)
          else if raise_for_status status then Inl (HTTPException 502)
          else (case body of None \<Rightarrow> Inl (HTTPException 502) | Some j \<Rightarrow> Inr j))"

definition github_call :: "AnalysisRequest \<Rightarrow> call" where
  "github_call request =
     (GitHubService, ascii ''/analyze'',
      JObj [(ascii ''owner'', JStr (req_owner request)),
            (ascii ''repo_name'', JStr (req_repo_name request)),
            (ascii ''start_date'', JStr (start_date request)),
            (ascii ''end_date'', JStr (end_date request))])"

definition analytics_call :: "AnalysisRequest \<Rightarrow> pydict \<Rightarrow> call" where
  "analytics_call request activity =
     (AnalyticsService, ascii ''/analyze'',
      JObj [(ascii ''repo_name'', JStr (req_repo_name request)),
            (ascii ''owner'', JStr (req_owner request)),
            (ascii ''activity_data'', JObj activity)])"

text \<open>
  The body of the save request; \<open>commit_stats.get\<close> and \<open>analytics_response.get\<close> raise
  \<open>AttributeError\<close> on a value that is not a dictionary.
\<close>

definition save_call :: "AnalysisRequest \<Rightarrow> pydict \<Rightarrow> json \<Rightarrow> exn + call" where
  "save_call request activity analytics_response =
     (let commit_stats = dict_get activity (ascii ''commit_stats'') (JObj []) in
      bind_exn (py_get commit_stats (ascii ''total_commits'') (JInt 0)) (\<lambda>total_commits.
      bind_exn (py_get commit_stats (ascii ''average_commits_per_day'') (JInt 0)) (\<lambda>avg.
      bind_exn (py_get analytics_response (ascii ''success'') (JBool False)) (\<lambda>available.
      Inr (DatabaseService, ascii ''/stats/save'',
           JObj [(ascii ''owner'', JStr (req_owner request)),
                 (ascii ''repo_name'', JStr (req_repo_name request)),
                 (ascii ''total_commits'', total_commits),
                 (ascii ''total_contributors'',
                    dict_get activity (ascii ''total_contributors'') (JInt 0)),
                 (ascii ''avg_commits_per_day'', avg),
                 (ascii ''analysis_period_days'',
                    dict_get activity (ascii ''analysis_period_days'') (JInt 0)),
                 (ascii ''activity_index'', dict_get activity (ascii ''activity_index'') (JInt 0)),
                 (ascii ''additional_data'',
                    JObj [(ascii ''ai_analysis_available'', available)])])))))"

definition assemble :: "AnalysisRequest \<Rightarrow> pydict \<Rightarrow> json \<Rightarrow> json \<Rightarrow> exn + pydict" where
  "assemble request activity analytics_response save_response =
     bind_exn (py_get analytics_response (ascii ''analysis'') (JStr [])) (\<lambda>ai_analysis.
     bind_exn (py_get analytics_response (ascii ''recommendations'') (JArr [])) (\<lambda>ai_recs.
     bind_exn (py_get analytics_response (ascii ''insights'') (JObj [])) (\<lambda>ai_insights.
     bind_exn (py_get analytics_response (ascii ''summary'') (JStr [])) (\<lambda>ai_summary.
     bind_exn (py_get save_response (ascii ''record_id'') JNull) (\<lambda>record_id.
     Inr [(ascii ''success'', JBool True),
          (ascii ''repo_info'', dict_get activity (ascii ''repo_info'') JNull),
          (ascii ''commit_stats'', dict_get activity (ascii ''commit_stats'') JNull),
          (ascii ''contributors'', dict_get activity (ascii ''contributors'') JNull),
          (ascii ''total_contributors'', dict_get activity (ascii ''total_contributors'') JNull),
          (ascii ''issue_stats'', dict_get activity (ascii ''issue_stats'') JNull),
          (ascii ''pr_stats'', dict_get activity (ascii ''pr_stats'') JNull),
          (ascii ''language_stats'', dict_get activity (ascii ''language_stats'') JNull),
          (ascii ''analysis_period_days'',
             dict_get activity (ascii ''analysis_period_days'') JNull),
          (ascii ''activity_index'', dict_get activity (ascii ''activity_index'') JNull),
          (ascii ''start_date'', JStr (start_date request)),
          (ascii ''end_date'', JStr (end_date request)),
          (ascii ''ai_analysis'', ai_analysis),
          (ascii ''ai_recommendations'', ai_recs),
          (ascii ''ai_insights'', ai_insights),
          (ascii ''ai_summary'', ai_summary),
          (ascii ''database_record_id'', record_id)])))))"

text \<open>
  \<open>analyze_repository\<close> of the gateway returns the response or the \<open>HTTPException\<close> raised,
  together with the calls made to the services, in order. An \<open>HTTPException\<close> is re-raised
  unchanged and any other exception becomes status 500.
\<close>

definition gateway_analyze_repository ::
    "network \<Rightarrow> AnalysisRequest \<Rightarrow> (http_exception + pydict) \<times> call list" where
  "gateway_analyze_repository net request =
     (case call_service net (github_call request) of
        Inl e \<Rightarrow> (Inl e, [github_call request])
      | Inr github_response \<Rightarrow>
          (case github_response of
             JObj activity \<Rightarrow>
               if \<not> truthy (dict_get activity (ascii ''success'') JNull)
               then (Inl (HTTPException 404), [github_call request])
               else
                 (case call_service net (analytics_call request activity) of
                    Inl e \<Rightarrow> (Inl e, [github_call request, analytics_call request activity])
                  | Inr analytics_response \<Rightarrow>
                      (case save_call request activity analytics_response of
                         Inl x \<Rightarrow>
                           (Inl (HTTPException 500),
                            [github_call request, analytics_call request activity])
                       | Inr sc \<Rightarrow>
                           (case call_service net sc of
                              Inl e \<Rightarrow>
                                (Inl e,
                                 [github_call request, analytics_call request activity, sc])
                            | Inr save_response \<Rightarrow>
                                (case assemble request activity analytics_response
                                        save_response of
                                   Inl x \<Rightarrow>
                                     (Inl (HTTPException 500),
                                      [github_call request,
                                       analytics_call request activity, sc])
                                 | Inr result \<Rightarrow>
                                     (Inr result,
                                      [github_call request,
                                       analytics_call request activity, sc])))))
           | _ \<Rightarrow> (Inl (HTTPException 500), [github_call request])))"


text \<open>
  The fetch stage succeeds when the GitHub service answers with a status that is not an
  error and a JSON dictionary whose \<open>success\<close> entry is true.
\<close>

fun fetch_succeeded :: "http_reply \<Rightarrow> bool" where
  "fetch_succeeded (Reply status (Some (JObj g))) =
     (status \<noteq> 404 \<and> \<not> raise_for_status status \<and> truthy (dict_get g (ascii ''success'') JNull))"
| "fetch_succeeded _ = False"

text \<open>The status the gateway raises for a reply with which the fetch stage fails.\<close>

fun fetch_error :: "http_reply \<Rightarrow> nat" where
  "fetch_error (Failed TimedOut) = 504"
| "fetch_error (Failed _) = 502"
| "fetch_error (Reply status body) =
     (if status = 404 then 404
      else if raise_for_status status then 502
      else (case body of None \<Rightarrow> 502 | Some (JObj g) \<Rightarrow> 404 | Some _ \<Rightarrow> 500))"


definition sample_analysis_request :: AnalysisRequest where
  "sample_analysis_request =
     \<lparr>req_owner = ascii ''octo'', req_repo_name = ascii ''repo'',
      start_date = ascii ''2024-01-01T00:00:00Z'', end_date = ascii ''2024-01-31T00:00:00Z''\<rparr>"

text \<open>A network on which every request is answered with status 404.\<close>

definition not_found_network :: network where
  "not_found_network svc path body = Reply 404 None"

section \<open>GitHub service\<close>

text \<open>
  A \<open>datetime\<close> is naive or aware; it is kept as its microseconds on the time line, for an aware
  one those of the instant in UTC. \<open>datetime.fromisoformat\<close> is a parameter (\<open>None\<close> when it raises
  \<open>ValueError\<close>). The difference of a naive and an aware \<open>datetime\<close> raises \<open>TypeError\<close>; the \<open>days\<close>
  of a \<open>timedelta\<close> is the number of whole days, rounded down.
\<close>

datatype datetime = Naive int | Aware int

definition replace_Z :: "pystr \<Rightarrow> pystr" where
  "replace_Z s = concat (map (\<lambda>c. if c = 90 then ascii ''+00:00'' else [c]) s)"

fun timedelta_days :: "datetime \<Rightarrow> datetime \<Rightarrow> exn + int" where
  "timedelta_days (Naive e) (Naive s) = Inr ((e - s) div 86400000000)"
| "timedelta_days (Aware e) (Aware s) = Inr ((e - s) div 86400000000)"
| "timedelta_days e s = Inl TypeError"

text \<open>
  Floating-point arithmetic is a parameter: the true division of two integers, the product
  of a float and an integer, and \<open>round(x, ndigits)\<close> on a float. A division by zero raises
  \<open>ZeroDivisionError\<close>. A Python number is an \<open>int\<close> or a \<open>float\<close>; \<open>round\<close> keeps an \<open>int\<close>.
\<close>

record 'f float_ops =
  truediv :: "int \<Rightarrow> int \<Rightarrow> 'f"
  fmul :: "'f \<Rightarrow> int \<Rightarrow> 'f"
  round_ndigits :: "'f \<Rightarrow> nat \<Rightarrow> 'f"

datatype 'f number = IntNum int | FloatNum 'f

definition py_truediv :: "'f float_ops \<Rightarrow> int \<Rightarrow> int \<Rightarrow> exn + 'f" where
  "py_truediv ops a b = (if b = 0 then Inl ZeroDivisionError else Inr (truediv ops a b))"

fun py_round :: "'f float_ops \<Rightarrow> 'f number \<Rightarrow> nat \<Rightarrow> 'f number" where
  "py_round ops (IntNum i) n = IntNum i"
| "py_round ops (FloatNum x) n = FloatNum (round_ndigits ops x n)"

text \<open>
  The fetchers are taken by their outcomes for the repository of the request: the
  repository information with its \<open>subscribers_count\<close>, the commits with their count, and the
  contributors raise an \<open>HTTPException\<close> or return; issues, pull requests and languages always
  return. The counts are integers, as the GitHub API sends them.
\<close>

record repo_info_result =
  subscribers_count :: int
  repo_info_fields :: pydict

record commits_result =
  total_commits :: int
  commits_by_author :: json
  commits_by_day :: json
  most_active_day :: json
  most_active_author :: json

record contributors_result =
  contributors :: json
  total_contributors :: int

record github_env =
  fromisoformat :: "pystr \<Rightarrow> datetime option"
  get_repo_info :: "http_exception + repo_info_result"
  fetch_commits :: "http_exception + commits_result"
  fetch_contributors :: "http_exception + contributors_result"
  fetch_issues :: json
  fetch_pull_requests :: json
  fetch_languages :: json

record 'f activity =
  act_repo_info :: repo_info_result
  act_commits :: commits_result
  average_commits_per_day :: "'f number"
  act_contributors :: contributors_result
  issue_stats :: json
  pr_stats :: json
  language_stats :: json
  analysis_period_days :: int
  activity_index :: 'f
  act_start_date :: pystr
  act_end_date :: pystr

text \<open>
  \<open>analyze_repository\<close> of the GitHub service: an \<open>HTTPException\<close> of a fetcher is raised
  unchanged, any other exception becomes status 500.
\<close>

definition github_analyze_repository ::
    "'f float_ops \<Rightarrow> github_env \<Rightarrow> AnalysisRequest \<Rightarrow> http_exception + 'f activity" where
  "github_analyze_repository ops env request =
     (case fromisoformat env (replace_Z (start_date request)) of
        None \<Rightarrow> Inl (HTTPException 500)
      | Some start \<Rightarrow>
     (case fromisoformat env (replace_Z (end_date request)) of
        None \<Rightarrow> Inl (HTTPException 500)
      | Some end \<Rightarrow>
     (case timedelta_days end start of
        Inl x \<Rightarrow> Inl (HTTPException 500)
      | Inr d \<Rightarrow>
     (let days = d + 1 in
      case get_repo_info env of
        Inl e \<Rightarrow> Inl e
      | Inr repo_info \<Rightarrow>
     (case fetch_commits env of
        Inl e \<Rightarrow> Inl e
      | Inr commits_data \<Rightarrow>
     (case fetch_contributors env of
        Inl e \<Rightarrow> Inl e
      | Inr contributors_data \<Rightarrow>
     (case (if days > 0
            then bind_exn (py_truediv ops (total_commits commits_data) days)
                   (\<lambda>q. Inr (FloatNum q))
            else Inr (IntNum 0)) of
        Inl x \<Rightarrow> Inl (HTTPException 500)
      | Inr avg_commits_per_day \<Rightarrow>
     (let subscribers =
            (if subscribers_count repo_info > 0 then subscribers_count repo_info else 1)
      in case py_truediv ops (total_commits commits_data) subscribers of
           Inl x \<Rightarrow> Inl (HTTPException 500)
         | Inr q \<Rightarrow>
             Inr \<lparr>act_repo_info = repo_info,
                  act_commits = commits_data,
                  average_commits_per_day = py_round ops avg_commits_per_day 2,
                  act_contributors = contributors_data,
                  issue_stats = fetch_issues env,
                  pr_stats = fetch_pull_requests env,
                  language_stats = fetch_languages env,
                  analysis_period_days = days,
                  activity_index = round_ndigits ops (fmul ops q 100) 2,
                  act_start_date = start_date request,
                  act_end_date = end_date request\<rparr>))))))))"

subsection \<open>Exact arithmetic and a reference reader of dates\<close>

text \<open>
  For evaluation on numbers that floats represent exactly, the operations over the
  rationals: exact division and product, and rounding to the nearest multiple of
  \<open>10\<^sup>-\<^sup>n\<close>, a tie going to the even one.
\<close>

definition round_half_even :: "rat \<Rightarrow> int" where
  "round_half_even x =
     (let f = \<lfloor>x\<rfloor>; d = x - of_int f
      in if d < 1 / 2 then f else if 1 / 2 < d then f + 1 else if even f then f else f + 1)"

definition exact_ops :: "rat float_ops" where
  "exact_ops =
     \<lparr>truediv = (\<lambda>a b. of_int a / of_int b),
      fmul = (\<lambda>x n. x * of_int n),
      round_ndigits = (\<lambda>x n. of_int (round_half_even (x * 10 ^ n)) / 10 ^ n)\<rparr>"

text \<open>
  A reader of the form \<open>YYYY-MM-DDTHH:MM:SS\<close>, with or without an offset \<open>+HH:MM\<close> or
  \<open>-HH:MM\<close>, one of the forms \<open>datetime.fromisoformat\<close> accepts.
\<close>

definition num :: "pystr \<Rightarrow> int option" where
  "num s = (if s \<noteq> [] \<and> list_all is_digit s then Some (digits_value s) else None)"

definition days_from_civil :: "int \<Rightarrow> int \<Rightarrow> int \<Rightarrow> int" where
  "days_from_civil y m d =
     (let y1 = (if m \<le> 2 then y - 1 else y);
          era = y1 div 400;
          yoe = y1 - era * 400;
          doy = (153 * (if m > 2 then m - 3 else m + 9) + 2) div 5 + d - 1;
          doe = yoe * 365 + yoe div 4 - yoe div 100 + doy
      in era * 146097 + doe - 719468)"

definition days_in_month :: "int \<Rightarrow> int \<Rightarrow> int" where
  "days_in_month y m =
     (if m = 2 then (if y mod 4 = 0 \<and> (y mod 100 \<noteq> 0 \<or> y mod 400 = 0) then 29 else 28)
      else if m = 4 \<or> m = 6 \<or> m = 9 \<or> m = 11 then 30 else 31)"

definition utc_offset :: "pystr \<Rightarrow> int option" where
  "utc_offset s =
     (case (num (take 2 (drop 1 s)), num (take 2 (drop 4 s))) of
        (Some h, Some m) \<Rightarrow>
          if length s = 6 \<and> take 1 (drop 3 s) = [58] \<and> h < 24 \<and> m < 60
          then (if take 1 s = [43] then Some ((h * 60 + m) * 60)
                else if take 1 s = [45] then Some (- ((h * 60 + m) * 60))
                else None)
          else None
      | _ \<Rightarrow> None)"

definition iso_datetime :: "pystr \<Rightarrow> datetime option" where
  "iso_datetime s =
     (case (num (take 4 s), num (take 2 (drop 5 s)), num (take 2 (drop 8 s)),
            num (take 2 (drop 11 s)), num (take 2 (drop 14 s)), num (take 2 (drop 17 s))) of
        (Some y, Some mo, Some d, Some h, Some mi, Some sec) \<Rightarrow>
          if take 1 (drop 4 s) = [45] \<and> take 1 (drop 7 s) = [45] \<and> take 1 (drop 10 s) = [84] \<and>
             take 1 (drop 13 s) = [58] \<and> take 1 (drop 16 s) = [58] \<and>
             1 \<le> y \<and> 1 \<le> mo \<and> mo \<le> 12 \<and> 1 \<le> d \<and> d \<le> days_in_month y mo \<and>
             h < 24 \<and> mi < 60 \<and> sec < 60
          then (let t = ((days_from_civil y mo d * 24 + h) * 60 + mi) * 60 + sec
                in if drop 19 s = [] then Some (Naive (t * 1000000))
                   else (case utc_offset (drop 19 s) of
                           None \<Rightarrow> None
                         | Some off \<Rightarrow> Some (Aware ((t - off) * 1000000))))
          else None
      | _ \<Rightarrow> None)"

text \<open>
  A sample environment: a repository with the given numbers of commits and subscribers,
  and no further data.
\<close>

definition sample_github :: "int \<Rightarrow> int \<Rightarrow> github_env" where
  "sample_github commits subscribers =
     \<lparr>fromisoformat = iso_datetime,
      get_repo_info = Inr \<lparr>subscribers_count = subscribers, repo_info_fields = []\<rparr>,
      fetch_commits =
        Inr \<lparr>total_commits = commits, commits_by_author = JObj [], commits_by_day = JObj [],
             most_active_day = JNull, most_active_author = JNull\<rparr>,
      fetch_contributors = Inr \<lparr>contributors = JArr [], total_contributors = 0\<rparr>,
      fetch_issues = JObj [], fetch_pull_requests = JObj [], fetch_languages = JObj []\<rparr>"

definition window_request :: "string \<Rightarrow> string \<Rightarrow> AnalysisRequest" where
  "window_request s e =
     \<lparr>req_owner = ascii ''octo'', req_repo_name = ascii ''repo'',
      start_date = ascii s, end_date = ascii e\<rparr>"

section \<open>Database service\<close>















section \<open>Properties of the analytics service\<close>

lemma fence_code: "fence = [96, 96, 96]"
  by (simp add: fence_def ascii_def)

lemma fence_json_code: "fence_json = [96, 96, 96, 106, 115, 111, 110]"
  by (simp add: fence_json_def ascii_def)

lemma map_of_repair_insights:
  "\<exists>i. map_of (repair data) (ascii ''insights'') = Some (JObj i)"
proof (cases "map_of data (ascii ''insights'')")
  case None
  then show ?thesis
    by (simp add: repair_def Let_def update_conv' ascii_def default_insights_def insights_with_def)
next
  case (Some v)
  then show ?thesis
    by (cases v)
       (simp_all add: repair_def Let_def update_conv' ascii_def default_insights_def insights_with_def)
qed

lemma map_of_repair_recommendations:
  "\<exists>r. map_of (repair data) (ascii ''recommendations'') = Some (JArr r)"
proof -
  define data1 where "data1 =
     (if (case map_of data (ascii ''insights'') of None \<Rightarrow> True | Some v \<Rightarrow> \<not> isinstance_dict v)
      then AList.update (ascii ''insights'') default_insights data else data)"
  have r: "repair data =
     (if (case map_of data1 (ascii ''recommendations'') of None \<Rightarrow> True | Some v \<Rightarrow> \<not> isinstance_list v)
      then AList.update (ascii ''recommendations'') default_recommendations data1 else data1)"
    by (simp add: repair_def Let_def data1_def)
  show ?thesis
  proof (cases "map_of data1 (ascii ''recommendations'')")
    case None
    then show ?thesis by (simp add: r update_conv' default_recommendations_def)
  next
    case (Some v)
    then show ?thesis by (cases v) (simp_all add: r update_conv' default_recommendations_def)
  qed
qed

lemma map_of_default_res:
  "map_of (default_res t) (ascii ''insights'') = Some default_insights"
  "map_of (default_res t) (ascii ''recommendations'') = Some default_recommendations"
  "map_of (default_res t) (ascii ''summary'') = Some (JStr default_summary)"
  "map_of (default_res t) (ascii ''analysis'') = Some t"
  by (simp_all add: default_res_def ascii_def)

lemma parse_ai_response_cases:
  "parse_ai_response loads resp = default_res resp \<or>
   (\<exists>data. parse_ai_response loads resp = repair data)"
proof (cases resp)
  case (JStr s)
  show ?thesis
  proof (cases "re_search_braces (strip (re_sub_fences s))")
    case None
    then show ?thesis using JStr by simp
  next
    case (Some span)
    show ?thesis
    proof (cases "loads span")
      case None
      then show ?thesis using JStr Some by simp
    next
      case (Some v)
      then show ?thesis using JStr \<open>re_search_braces (strip (re_sub_fences s)) = Some span\<close>
        by (cases v) auto
    qed
  qed
qed simp_all

lemma parse_ai_response_shape:
  "\<exists>i r. map_of (parse_ai_response loads resp) (ascii ''insights'') = Some (JObj i) \<and>
         map_of (parse_ai_response loads resp) (ascii ''recommendations'') = Some (JArr r)"
  using parse_ai_response_cases [of loads resp] map_of_repair_insights map_of_repair_recommendations
  by (auto simp: map_of_default_res default_insights_def insights_with_def default_recommendations_def)

lemma take_eq_lengthD: "take n p = q \<Longrightarrow> length q = n \<Longrightarrow> n \<le> length p"
  by (metis length_take min.cobounded1 min.commute)

lemma fence_json_len: "take 7 p = fence_json \<Longrightarrow> 7 \<le> length p"
  by (rule take_eq_lengthD [where q = fence_json]) (simp_all add: fence_json_code)

lemma fence_len: "take 3 p = fence \<Longrightarrow> 3 \<le> length p"
  by (rule take_eq_lengthD [where q = fence]) (simp_all add: fence_code)

lemma take_append_mem:
  assumes "length p < n" shows "c \<in> set (take n (p @ c # y))"
proof -
  have "take n (p @ c # y) = p @ take (n - length p) (c # y)" using assms by simp
  moreover have "take (n - length p) (c # y) = c # take (n - length p - 1) y"
    using assms by (cases "n - length p") simp_all
  ultimately show ?thesis by simp
qed

lemma take7_sep:
  assumes "c \<notin> set fence_json"
  shows "take 7 (p @ c # y) = fence_json \<longleftrightarrow> take 7 p = fence_json"
proof (cases "7 \<le> length p")
  case True then show ?thesis by simp
next
  case False
  then have "c \<in> set (take 7 (p @ c # y))" by (intro take_append_mem) simp
  with assms have "take 7 (p @ c # y) \<noteq> fence_json" by metis
  moreover have "take 7 p \<noteq> fence_json" using False fence_json_len by blast
  ultimately show ?thesis by simp
qed

lemma take3_sep:
  assumes "c \<notin> set fence"
  shows "take 3 (p @ c # y) = fence \<longleftrightarrow> take 3 p = fence"
proof (cases "3 \<le> length p")
  case True then show ?thesis by simp
next
  case False
  then have "c \<in> set (take 3 (p @ c # y))" by (intro take_append_mem) simp
  with assms have "take 3 (p @ c # y) \<noteq> fence" by metis
  moreover have "take 3 p \<noteq> fence" using False fence_len by fastforce
  ultimately show ?thesis by simp
qed

lemma re_sub_fences_sep:
  assumes c: "c \<notin> set fence_json"
  shows "re_sub_fences (p @ c # y) = re_sub_fences p @ c # re_sub_fences y"
proof (induction p rule: re_sub_fences.induct)
  case 1
  have "c \<noteq> 96" using c by (simp add: fence_json_code)
  then show ?case by (simp add: fence_json_code fence_code)
next
  case (2 a as)
  have c3: "c \<notin> set fence" using c by (simp add: fence_json_code fence_code)
  let ?p = "a # as"
  consider (j) "take 7 ?p = fence_json"
    | (f) "take 7 ?p \<noteq> fence_json" "take 3 ?p = fence"
    | (n) "take 7 ?p \<noteq> fence_json" "take 3 ?p \<noteq> fence" by blast
  then show ?case
  proof cases
    case j
    then have l: "7 \<le> length ?p" by (rule fence_json_len)
    have "take 7 (?p @ c # y) = fence_json" using j take7_sep [OF c, of ?p y] by simp
    then have "re_sub_fences (?p @ c # y) = re_sub_fences (drop 7 (?p @ c # y))" by simp
    also have "drop 7 (?p @ c # y) = drop 7 ?p @ c # y" using l by simp
    also have "re_sub_fences (drop 7 ?p @ c # y) = re_sub_fences (drop 7 ?p) @ c # re_sub_fences y"
      using "2.IH"(1) j by simp
    also have "re_sub_fences (drop 7 ?p) = re_sub_fences ?p" using j by simp
    finally show ?thesis .
  next
    case f
    then have l: "3 \<le> length ?p" using fence_len by blast
    have n7: "take 7 (?p @ c # y) \<noteq> fence_json" using f take7_sep [OF c, of ?p y] by simp
    have "take 3 (?p @ c # y) = fence" using f take3_sep [OF c3, of ?p y] by simp
    with n7 have "re_sub_fences (?p @ c # y) = re_sub_fences (drop 3 (?p @ c # y))" by simp
    also have "drop 3 (?p @ c # y) = drop 3 ?p @ c # y" using l by simp
    also have "re_sub_fences (drop 3 ?p @ c # y) = re_sub_fences (drop 3 ?p) @ c # re_sub_fences y"
      using "2.IH"(2) f by simp
    also have "re_sub_fences (drop 3 ?p) = re_sub_fences ?p" using f by simp
    finally show ?thesis .
  next
    case n
    have n7: "take 7 (?p @ c # y) \<noteq> fence_json" using n take7_sep [OF c, of ?p y] by simp
    have n3: "take 3 (?p @ c # y) \<noteq> fence" using n take3_sep [OF c3, of ?p y] by simp
    have "re_sub_fences (?p @ c # y) = a # re_sub_fences (as @ c # y)" using n7 n3 by simp
    also have "\<dots> = (a # re_sub_fences as) @ c # re_sub_fences y" using "2.IH"(3) n by simp
    also have "a # re_sub_fences as = re_sub_fences ?p" using n by simp
    finally show ?thesis .
  qed
qed

lemma re_sub_fences_fence [simp]: "re_sub_fences fence = []"
  by (simp add: fence_code fence_json_code)

lemma take7_closing:
  assumes "take 7 p \<noteq> fence_json"
  shows "take 7 (p @ fence) \<noteq> fence_json"
proof (cases "7 \<le> length p")
  case True then show ?thesis using assms by simp
next
  case False
  have "96 \<notin> set (drop 3 fence_json)" by (simp add: fence_json_code)
  show ?thesis
  proof
    assume e: "take 7 (p @ fence) = fence_json"
    have "length p < 7" using False by simp
    then have "(p @ fence) ! length p = 96" by (simp add: fence_code nth_append)
    moreover have "length p < length (p @ fence)" by (simp add: fence_code)
    ultimately have a: "fence_json ! length p = 96"
      using e \<open>length p < 7\<close> by (metis nth_take)
    have "length (take 7 (p @ fence)) = 7" using e by (simp add: fence_json_code)
    then have "4 \<le> length p" by (simp add: fence_code)
    then have "length p = 4 \<or> length p = 5 \<or> length p = 6" using \<open>length p < 7\<close> by arith
    then show False using a by (auto simp: fence_json_code)
  qed
qed

lemma re_sub_fences_closing: "re_sub_fences (p @ fence) = re_sub_fences p"
proof (induction p rule: re_sub_fences.induct)
  case 1
  show ?case by simp
next
  case (2 a as)
  let ?p = "a # as"
  consider (j) "take 7 ?p = fence_json"
    | (f) "take 7 ?p \<noteq> fence_json" "take 3 ?p = fence"
    | (n) "take 7 ?p \<noteq> fence_json" "take 3 ?p \<noteq> fence" by blast
  then show ?case
  proof cases
    case j
    then have l: "7 \<le> length ?p" by (rule fence_json_len)
    then have "take 7 (?p @ fence) = fence_json" using j by simp
    then have "re_sub_fences (?p @ fence) = re_sub_fences (drop 7 (?p @ fence))" by simp
    also have "drop 7 (?p @ fence) = drop 7 ?p @ fence" using l by simp
    also have "re_sub_fences (drop 7 ?p @ fence) = re_sub_fences (drop 7 ?p)"
      using "2.IH"(1) j by simp
    also have "\<dots> = re_sub_fences ?p" using j by simp
    finally show ?thesis .
  next
    case f
    then have l: "3 \<le> length ?p" using fence_len by blast
    have n7: "take 7 (?p @ fence) \<noteq> fence_json" using f(1) by (rule take7_closing)
    have "take 3 (?p @ fence) = fence" using f l by simp
    with n7 have "re_sub_fences (?p @ fence) = re_sub_fences (drop 3 (?p @ fence))" by simp
    also have "drop 3 (?p @ fence) = drop 3 ?p @ fence" using l by simp
    also have "re_sub_fences (drop 3 ?p @ fence) = re_sub_fences (drop 3 ?p)"
      using "2.IH"(2) f by simp
    also have "\<dots> = re_sub_fences ?p" using f by simp
    finally show ?thesis .
  next
    case n
    have n7: "take 7 (?p @ fence) \<noteq> fence_json" using n(1) by (rule take7_closing)
    show ?thesis
    proof (cases "take 3 (?p @ fence) = fence")
      case False
      then have "re_sub_fences (?p @ fence) = a # re_sub_fences (as @ fence)" using n7 by simp
      also have "\<dots> = a # re_sub_fences as" using "2.IH"(3) n by simp
      also have "\<dots> = re_sub_fences ?p" using n by simp
      finally show ?thesis .
    next
      case True
      have "length ?p < 3" using n(2) True by (cases "3 \<le> length ?p") simp_all
      then have "as = [] \<or> (\<exists>b. as = [b])"
      proof (cases as)
        case Nil then show ?thesis by simp
      next
        case (Cons b bs)
        then have "bs = []" using \<open>length ?p < 3\<close> by simp
        then show ?thesis using Cons by simp
      qed
      then show ?thesis
      proof
        assume "as = []"
        then show ?thesis using True by (simp add: fence_code fence_json_code)
      next
        assume "\<exists>b. as = [b]"
        then obtain b where "as = [b]" ..
        then show ?thesis using True by (simp add: fence_code fence_json_code)
      qed
    qed
  qed
qed

lemma isspace_not_fence: "isspace c \<Longrightarrow> c \<notin> set fence_json"
  by (auto simp: isspace_def fence_json_code)

lemma re_sub_fences_spaces:
  "\<forall>c \<in> set ws. isspace c \<Longrightarrow> re_sub_fences (ws @ p) = ws @ re_sub_fences p"
proof (induction ws)
  case Nil
  show ?case by simp
next
  case (Cons w ws)
  then have "w \<notin> set fence_json" by (simp add: isspace_not_fence)
  then have "re_sub_fences ([] @ w # (ws @ p)) = re_sub_fences [] @ w # re_sub_fences (ws @ p)"
    by (rule re_sub_fences_sep)
  then show ?case using Cons by simp
qed

lemma re_sub_fences_spaces_closing:
  assumes "\<forall>c \<in> set ws. isspace c"
  shows "re_sub_fences (p @ ws @ fence) = re_sub_fences p @ ws"
proof (cases ws)
  case Nil
  then show ?thesis by (simp add: re_sub_fences_closing)
next
  case (Cons w ws')
  then have "w \<notin> set fence_json" using assms by (simp add: isspace_not_fence)
  then have "re_sub_fences (p @ w # (ws' @ fence)) = re_sub_fences p @ w # re_sub_fences (ws' @ fence)"
    by (rule re_sub_fences_sep)
  moreover have "re_sub_fences (ws' @ fence) = ws' @ re_sub_fences fence"
    using assms Cons by (intro re_sub_fences_spaces) simp
  ultimately show ?thesis using Cons by simp
qed

lemma re_sub_fences_opening: "re_sub_fences (fence_json @ p) = re_sub_fences p"
  by (simp add: fence_json_code)

lemma lstrip_spaces: "\<forall>c \<in> set ws. isspace c \<Longrightarrow> lstrip (ws @ s) = lstrip s"
  by (simp add: lstrip_def dropWhile_append2)

lemma rstrip_spaces: "\<forall>c \<in> set ws. isspace c \<Longrightarrow> rstrip (s @ ws) = rstrip s"
proof -
  assume "\<forall>c \<in> set ws. isspace c"
  then have "\<And>c. c \<in> set (rev ws) \<Longrightarrow> isspace c" by simp
  then have "dropWhile isspace (rev ws @ rev s) = dropWhile isspace (rev s)"
    by (rule dropWhile_append2)
  then show ?thesis by (simp add: rstrip_def)
qed

lemma strip_spaces:
  assumes "\<forall>c \<in> set ws1. isspace c" "\<forall>c \<in> set ws2. isspace c"
  shows "strip (ws1 @ s @ ws2) = strip s"
proof (cases "\<forall>c \<in> set s. isspace c")
  case True
  then have "lstrip (s @ ws2) = []" "lstrip s = []"
    using assms(2) by (auto simp: lstrip_def)
  then show ?thesis using assms(1) by (simp add: strip_def lstrip_spaces)
next
  case False
  then have "lstrip (s @ ws2) = lstrip s @ ws2"
    by (auto simp: lstrip_def dropWhile_append1)
  then show ?thesis using assms by (simp add: strip_def lstrip_spaces rstrip_spaces)
qed

lemma clean_text_fenced:
  assumes "\<forall>c \<in> set ws1. isspace c" "\<forall>c \<in> set ws2. isspace c"
  shows "strip (re_sub_fences (fenced ws1 payload ws2)) = strip (re_sub_fences payload)"
proof -
  have "re_sub_fences (fenced ws1 payload ws2) = ws1 @ re_sub_fences payload @ ws2"
    using assms
    by (simp add: fenced_def re_sub_fences_opening re_sub_fences_spaces re_sub_fences_spaces_closing)
  then show ?thesis using assms by (simp add: strip_spaces)
qed

text \<open>
  Claim C4, as amended. A payload that \<open>parse_ai_response\<close> accepts as a JSON object (in the
  payload, after deletion of the fence markers and of surrounding whitespace, the span from
  the first opening brace to the last closing brace is decoded by \<open>json.loads\<close> to a
  dictionary) gives exactly the same result when it is wrapped in an opening \<open>```json\<close> and a
  closing \<open>```\<close> marker, with any whitespace, or none, between the markers and the payload.
  For any other payload, valid JSON such as an array included, the fallback result stores
  the raw text, markers and all, and the two results differ.
\<close>

theorem fence_wrapping_invariant:
  assumes "parses_as_object loads payload"
    and "\<forall>c \<in> set ws1. isspace c" and "\<forall>c \<in> set ws2. isspace c"
  shows "parse_ai_response loads (JStr (fenced ws1 payload ws2)) =
         parse_ai_response loads (JStr payload)"
proof -
  have c: "strip (re_sub_fences (fenced ws1 payload ws2)) = strip (re_sub_fences payload)"
    using assms(2,3) by (rule clean_text_fenced)
  from assms(1) obtain json_str data where
    "re_search_braces (strip (re_sub_fences payload)) = Some json_str"
    "loads json_str = Some (JObj data)"
    by (auto simp: parses_as_object_def split: option.splits json.splits)
  then show ?thesis using c by simp
qed

lemma getitem_JObj_Inr: "getitem (JObj d) k = Inr v \<longleftrightarrow> map_of d k = Some v"
  by (simp split: option.splits)

lemma analyze_try_Inr:
  assumes "analyze_try env request = Inr result"
  shows "\<exists>resp a r i s.
           map_of (parse_ai_response (json_loads env) resp) (ascii ''analysis'') = Some a \<and>
           map_of (parse_ai_response (json_loads env) resp) (ascii ''recommendations'') = Some r \<and>
           map_of (parse_ai_response (json_loads env) resp) (ascii ''insights'') = Some i \<and>
           map_of (parse_ai_response (json_loads env) resp) (ascii ''summary'') = Some s \<and>
           result = [(ascii ''success'', JBool True), (ascii ''analysis'', a),
                     (ascii ''recommendations'', r), (ascii ''insights'', i),
                     (ascii ''summary'', s)]"
  using assms unfolding analyze_try_def bind_exn_def Let_def
  by (auto split: sum.splits option.splits)

lemma map_of_fallback_response:
  "map_of (fallback_response env data err score summ) (ascii ''insights'') = Some (insights_with score)"
  "map_of (fallback_response env data err score summ) (ascii ''recommendations'') =
     Some (generate_fallback_recommendations data)"
  "map_of (fallback_response env data err score summ) (ascii ''summary'') = Some (JStr summ)"
  "map_of (fallback_response env data err score summ) (ascii ''success'') = Some (JBool False)"
  by (simp_all add: fallback_response_def ascii_def)

text \<open>
  Claim C5. Whatever the environment and the request, the value returned by
  \<open>analyze_with_ai\<close> has a dictionary under \<open>insights\<close> and a list under \<open>recommendations\<close>.
\<close>

theorem insights_and_recommendations_always_typed:
  "\<exists>i r. map_of (analyze_with_ai env request) (ascii ''insights'') = Some (JObj i) \<and>
         map_of (analyze_with_ai env request) (ascii ''recommendations'') = Some (JArr r)"
proof (cases "MISTRAL_API_KEY env = []")
  case True
  then show ?thesis
    by (simp add: analyze_with_ai_def map_of_fallback_response insights_with_def
        generate_fallback_recommendations_def)
next
  case False
  show ?thesis
  proof (cases "analyze_try env request")
    case (Inl e)
    then show ?thesis using False
      by (simp add: analyze_with_ai_def map_of_fallback_response insights_with_def
          generate_fallback_recommendations_def)
  next
    case (Inr result)
    from analyze_try_Inr [OF this] obtain resp a r i s where
      r: "map_of (parse_ai_response (json_loads env) resp) (ascii ''recommendations'') = Some r"
      and i: "map_of (parse_ai_response (json_loads env) resp) (ascii ''insights'') = Some i"
      and res: "result = [(ascii ''success'', JBool True), (ascii ''analysis'', a),
                     (ascii ''recommendations'', r), (ascii ''insights'', i),
                     (ascii ''summary'', s)]"
      by blast
    from parse_ai_response_shape [of "json_loads env" resp] r i
    obtain i' r' where "i = JObj i'" "r = JArr r'" by auto
    then show ?thesis using False Inr res
      by (simp add: analyze_with_ai_def ascii_def)
  qed
qed

lemma parse_ai_response_not_object:
  "\<not> parses_as_object loads s \<Longrightarrow> parse_ai_response loads (JStr s) = default_res (JStr s)"
  by (auto simp: parses_as_object_def split: option.splits json.splits)

text \<open>
  Claim C3, as amended. When the completion endpoint returns a text in which, after deletion
  of the fence markers and of surrounding whitespace, there is no span from the first opening
  brace to the last closing brace that \<open>json.loads\<close> decodes to a dictionary, the endpoint
  answers with \<open>success\<close> true, the raw text as \<open>analysis\<close> and the default summary, insights
  and recommendations; the exception handler is not entered. The condition is on the text
  after the deletion: a text that is not JSON as received can become JSON by it.
\<close>

theorem non_json_text_gives_default:
  assumes "MISTRAL_API_KEY env \<noteq> []"
    and "prepare_activity_summary env (activity_data request) = Inr activity_summary"
    and "call_mistral_api env
           (create_analysis_prompt (owner request) (repo_name request) activity_summary) =
         Inr (JStr raw)"
    and "\<not> parses_as_object (json_loads env) raw"
  shows "analyze_with_ai env request =
           [(ascii ''success'', JBool True),
            (ascii ''analysis'', JStr raw),
            (ascii ''recommendations'', default_recommendations),
            (ascii ''insights'', default_insights),
            (ascii ''summary'', JStr default_summary)]"
proof -
  have "parse_ai_response (json_loads env) (JStr raw) = default_res (JStr raw)"
    using assms(4) by (rule parse_ai_response_not_object)
  then have "analyze_try env request =
           Inr [(ascii ''success'', JBool True),
            (ascii ''analysis'', JStr raw),
            (ascii ''recommendations'', default_recommendations),
            (ascii ''insights'', default_insights),
            (ascii ''summary'', JStr default_summary)]"
    using assms(2,3) by (simp add: analyze_try_def bind_exn_def map_of_default_res)
  then show ?thesis using assms(1) by (simp add: analyze_with_ai_def)
qed

theorem fence_wrapping_invariant_witness:
  \<open>parses_as_object (json_decode (\<lambda>lexeme. 0)) (ascii ''{"summary": "ok"}'') \<and>
   isspace 10 \<and>
   parse_ai_response (json_decode (\<lambda>lexeme. 0))
     (JStr (fenced [10] (ascii ''{"summary": "ok"}'') [10])) =
   parse_ai_response (json_decode (\<lambda>lexeme. 0)) (JStr (ascii ''{"summary": "ok"}''))\<close>
proof -
  have h1: \<open>parses_as_object (json_decode (\<lambda>lexeme. 0)) (ascii ''{"summary": "ok"}'')\<close>
    by code_simp
  have h2: "\<forall>c \<in> set [10]. isspace c" by (simp add: isspace_def)
  have h3: "isspace 10" by (simp add: isspace_def)
  show ?thesis using h1 h3 fence_wrapping_invariant [OF h1 h2 h2] by blast
qed

theorem insights_and_recommendations_always_typed_witness:
  "\<exists>i r. map_of (analyze_with_ai (sample_env (Failed ConnectionRefused)) sample_request)
            (ascii ''insights'') = Some (JObj i) \<and>
         map_of (analyze_with_ai (sample_env (Failed ConnectionRefused)) sample_request)
            (ascii ''recommendations'') = Some (JArr r)"
  by (rule insights_and_recommendations_always_typed)

lemma sample_prepare:
  "\<exists>s. prepare_activity_summary (sample_env reply) (activity_data sample_request) = Inr s"
  by (simp add: prepare_activity_summary_def sample_env_def sample_request_def fmt_get_def
      bind_exn_def lit_def newline_indent_def)

theorem non_json_text_gives_default_witness:
  "MISTRAL_API_KEY (sample_env (chat_completion (JStr (ascii ''no data'')))) \<noteq> [] \<and>
   \<not> parses_as_object (json_loads (sample_env (chat_completion (JStr (ascii ''no data'')))))
       (ascii ''no data'') \<and>
   analyze_with_ai (sample_env (chat_completion (JStr (ascii ''no data'')))) sample_request =
     [(ascii ''success'', JBool True),
      (ascii ''analysis'', JStr (ascii ''no data'')),
      (ascii ''recommendations'', default_recommendations),
      (ascii ''insights'', default_insights),
      (ascii ''summary'', JStr default_summary)]"
proof -
  let ?env = "sample_env (chat_completion (JStr (ascii ''no data'')))"
  have h1: "MISTRAL_API_KEY ?env \<noteq> []" by (simp add: sample_env_def ascii_def)
  obtain s where h2: "prepare_activity_summary ?env (activity_data sample_request) = Inr s"
    using sample_prepare by blast
  have h3: "call_mistral_api ?env
              (create_analysis_prompt (owner sample_request) (repo_name sample_request) s) =
            Inr (JStr (ascii ''no data''))"
    by (simp add: call_mistral_api_def sample_env_def chat_completion_def raise_for_status_def
        bind_exn_def ascii_def)
  have h4: "\<not> parses_as_object (json_loads ?env) (ascii ''no data'')"
    by (simp add: parses_as_object_def ascii_def fence_code fence_json_code strip_def lstrip_def
        rstrip_def isspace_def re_search_braces_def lbrace_def)
  show ?thesis using h1 h4 non_json_text_gives_default [OF h1 h2 h3 h4] by blast
qed

lemma fence_json_prefix: "take 7 s = fence_json \<Longrightarrow> take 3 s = fence"
proof -
  assume "take 7 s = fence_json"
  then have "take 3 (take 7 s) = take 3 fence_json" by simp
  then show ?thesis by (simp add: fence_json_code fence_code)
qed

lemma re_sub_fences_id: "\<not> has_fence s \<Longrightarrow> re_sub_fences s = s"
proof (induction s)
  case Nil
  show ?case by simp
next
  case (Cons c cs)
  then have n3: "take 3 (c # cs) \<noteq> fence" and r: "re_sub_fences cs = cs" by simp_all
  from n3 have "take 7 (c # cs) \<noteq> fence_json" using fence_json_prefix by blast
  then show ?case using n3 r by simp
qed

lemma re_search_braces_whole:
  assumes "body \<noteq> []" "hd body = lbrace" "last body = rbrace"
  shows "re_search_braces body = Some body"
proof -
  from assms(1,2) obtain rest where b: "body = lbrace # rest" by (cases body) auto
  have "rest \<noteq> []" using assms(3) b by (auto simp: lbrace_def rbrace_def)
  then obtain e body' where r: "rev rest = e # body'" by (cases "rev rest") auto
  then have "e = last rest" by (metis \<open>rest \<noteq> []\<close> last_rev list.sel(1) hd_rev rev_rev_ident)
  then have e: "e = rbrace" using assms(3) b \<open>rest \<noteq> []\<close> by simp
  have "rev (e # body') = rest" using r by (metis rev_rev_ident)
  moreover have "dropWhile (\<lambda>c. c \<noteq> rbrace) (rev rest) = e # body'" using r e by simp
  moreover have "dropWhile (\<lambda>c. c \<noteq> lbrace) body = lbrace # rest" using b by simp
  ultimately show ?thesis using b unfolding re_search_braces_def by simp
qed

lemma map_of_repair:
  "map_of (repair data) (ascii ''insights'') =
     Some (case map_of data (ascii ''insights'') of Some (JObj i) \<Rightarrow> JObj i | _ \<Rightarrow> default_insights)"
  "map_of (repair data) (ascii ''recommendations'') =
     Some (case map_of data (ascii ''recommendations'') of
             Some (JArr r) \<Rightarrow> JArr r | _ \<Rightarrow> default_recommendations)"
  "map_of (repair data) (ascii ''summary'') = map_of data (ascii ''summary'')"
  "map_of (repair data) (ascii ''analysis'') = map_of data (ascii ''analysis'')"
  by (auto simp: repair_def Let_def update_conv' ascii_def split: option.splits json.splits)

lemma analyze_with_ai_json_branch:
  assumes "MISTRAL_API_KEY env \<noteq> []"
    and "prepare_activity_summary env (activity_data request) = Inr activity_summary"
    and "call_mistral_api env
           (create_analysis_prompt (owner request) (repo_name request) activity_summary) =
         Inr (JStr raw)"
    and "re_search_braces (strip (re_sub_fences raw)) = Some json_str"
    and "json_loads env json_str = Some (JObj data)"
    and "map_of data (ascii ''summary'') = Some s"
    and "map_of data (ascii ''analysis'') = Some a"
  shows "analyze_with_ai env request =
           [(ascii ''success'', JBool True),
            (ascii ''analysis'', a),
            (ascii ''recommendations'', repaired_recommendations data),
            (ascii ''insights'', repaired_insights data),
            (ascii ''summary'', s)]"
proof -
  have "parse_ai_response (json_loads env) (JStr raw) = repair data"
    using assms(4,5) by simp
  then have "analyze_try env request =
           Inr [(ascii ''success'', JBool True),
            (ascii ''analysis'', a),
            (ascii ''recommendations'', repaired_recommendations data),
            (ascii ''insights'', repaired_insights data),
            (ascii ''summary'', s)]"
    using assms(2,3,6,7)
    by (simp add: analyze_try_def bind_exn_def map_of_repair repaired_insights_def
        repaired_recommendations_def)
  then show ?thesis using assms(1) by (simp add: analyze_with_ai_def)
qed

text \<open>
  Claim C1, as amended. Let \<open>json_str\<close> be the span from the first opening brace to the last
  closing brace of the text that remains of the response once every \<open>```json\<close> and \<open>```\<close>
  marker is deleted and surrounding whitespace is stripped. When \<open>json.loads\<close> decodes
  \<open>json_str\<close> to a dictionary \<open>data\<close> that holds \<open>summary\<close> and \<open>analysis\<close>, the endpoint reports
  success, returns these two entries of \<open>data\<close> unchanged whatever their type, returns the
  \<open>insights\<close> of \<open>data\<close> unchanged when it is a dictionary and the default otherwise, and the
  \<open>recommendations\<close> of \<open>data\<close> unchanged when it is a list and the default otherwise.
\<close>

theorem partial_repair_of_nested_fields:
  assumes "MISTRAL_API_KEY env \<noteq> []"
    and "prepare_activity_summary env (activity_data request) = Inr activity_summary"
    and "call_mistral_api env
           (create_analysis_prompt (owner request) (repo_name request) activity_summary) =
         Inr (JStr raw)"
    and "re_search_braces (strip (re_sub_fences raw)) = Some json_str"
    and "json_loads env json_str = Some (JObj data)"
    and "map_of data (ascii ''summary'') = Some s"
    and "map_of data (ascii ''analysis'') = Some a"
  shows "analyze_with_ai env request =
           [(ascii ''success'', JBool True),
            (ascii ''analysis'', a),
            (ascii ''recommendations'', repaired_recommendations data),
            (ascii ''insights'', repaired_insights data),
            (ascii ''summary'', s)]"
  using assms by (rule analyze_with_ai_json_branch)

text \<open>
  Claim C2, as amended. When the response, apart from surrounding whitespace, is a text from
  an opening to a closing brace that \<open>json.loads\<close> decodes to a dictionary matching the schema,
  and the response contains no run of three backticks, the endpoint reports success and
  returns exactly the decoded \<open>summary\<close>, \<open>analysis\<close>, \<open>insights\<close> and \<open>recommendations\<close>.
\<close>

theorem round_trip_without_fences:
  assumes "MISTRAL_API_KEY env \<noteq> []"
    and "prepare_activity_summary env (activity_data request) = Inr activity_summary"
    and "call_mistral_api env
           (create_analysis_prompt (owner request) (repo_name request) activity_summary) =
         Inr (JStr raw)"
    and "\<not> has_fence raw"
    and "strip raw \<noteq> []" and "hd (strip raw) = lbrace" and "last (strip raw) = rbrace"
    and "json_loads env (strip raw) = Some (JObj data)"
    and "map_of data (ascii ''summary'') = Some (JStr s)"
    and "map_of data (ascii ''analysis'') = Some (JStr a)"
    and "map_of data (ascii ''insights'') = Some (JObj i)"
    and "map_of data (ascii ''recommendations'') = Some (JArr r)"
  shows "analyze_with_ai env request =
           [(ascii ''success'', JBool True),
            (ascii ''analysis'', JStr a),
            (ascii ''recommendations'', JArr r),
            (ascii ''insights'', JObj i),
            (ascii ''summary'', JStr s)]"
proof -
  have "re_sub_fences raw = raw" using assms(4) by (rule re_sub_fences_id)
  moreover have "re_search_braces (strip raw) = Some (strip raw)"
    using assms(5,6,7) by (rule re_search_braces_whole)
  ultimately have "parse_ai_response (json_loads env) (JStr raw) = repair data"
    using assms(8) by simp
  then have "analyze_try env request =
           Inr [(ascii ''success'', JBool True),
            (ascii ''analysis'', JStr a),
            (ascii ''recommendations'', JArr r),
            (ascii ''insights'', JObj i),
            (ascii ''summary'', JStr s)]"
    using assms(2,3,9,10,11,12)
    by (simp add: analyze_try_def bind_exn_def map_of_repair)
  then show ?thesis using assms(1) by (simp add: analyze_with_ai_def)
qed

text \<open>The exception path: a parsed dictionary without \<open>summary\<close> raises \<open>KeyError\<close>.\<close>

lemma analyze_with_ai_missing_summary:
  assumes "MISTRAL_API_KEY env \<noteq> []"
    and "prepare_activity_summary env (activity_data request) = Inr activity_summary"
    and "call_mistral_api env
           (create_analysis_prompt (owner request) (repo_name request) activity_summary) =
         Inr (JStr raw)"
    and "map_of (parse_ai_response (json_loads env) (JStr raw)) (ascii ''analysis'') = Some a"
    and "map_of (parse_ai_response (json_loads env) (JStr raw)) (ascii ''summary'') = None"
  shows "analyze_with_ai env request =
           fallback_response env (activity_data request) (exn_text env KeyError) (ascii ''0'')
             error_summary"
proof -
  obtain i r where
    "map_of (parse_ai_response (json_loads env) (JStr raw)) (ascii ''insights'') = Some (JObj i)"
    "map_of (parse_ai_response (json_loads env) (JStr raw)) (ascii ''recommendations'') =
       Some (JArr r)"
    using parse_ai_response_shape by blast
  then have "analyze_try env request = Inl KeyError"
    using assms(2-5) by (simp add: analyze_try_def bind_exn_def)
  then show ?thesis using assms(1) by (simp add: analyze_with_ai_def)
qed

lemma sample_env_simps:
  "MISTRAL_API_KEY (sample_env reply) \<noteq> []"
  "json_loads (sample_env reply) = json_decode (\<lambda>lexeme. 0)"
  "exn_text (sample_env reply) e = []"
  "py_format (sample_env reply) v = []"
  by (simp_all add: sample_env_def ascii_def)

lemma sample_call:
  "call_mistral_api (sample_env (chat_completion content)) prompt = Inr content"
  by (simp add: call_mistral_api_def sample_env_def chat_completion_def raise_for_status_def
      bind_exn_def ascii_def)

lemma decode_reply_missing_summary:
  "json_decode (\<lambda>lexeme. 0) reply_missing_summary =
     Some (JObj [(ascii ''analysis'', JStr (ascii ''a'')), (ascii ''insights'', JObj [])])"
  by code_simp

lemma clean_reply_missing_summary:
  "re_search_braces (strip (re_sub_fences reply_missing_summary)) = Some reply_missing_summary"
  by code_simp

theorem missing_summary_counterexample:
  "json_decode (\<lambda>lexeme. 0) reply_missing_summary =
     Some (JObj [(ascii ''analysis'', JStr (ascii ''a'')), (ascii ''insights'', JObj [])]) \<and>
   analyze_with_ai (sample_env (chat_completion (JStr reply_missing_summary))) sample_request =
     [(ascii ''success'', JBool False),
      (ascii ''error'', JStr []),
      (ascii ''analysis'', JStr (fallback_analysis_1 @ fallback_analysis_2 @ ascii ''%.'')),
      (ascii ''recommendations'',
         JArr [JStr fallback_recommendation_1, JStr fallback_recommendation_2]),
      (ascii ''insights'', insights_with (ascii ''0'')),
      (ascii ''summary'', JStr error_summary)]"
proof -
  let ?env = "sample_env (chat_completion (JStr reply_missing_summary))"
  obtain s where h2: "prepare_activity_summary ?env (activity_data sample_request) = Inr s"
    using sample_prepare by blast
  have p: "parse_ai_response (json_loads ?env) (JStr reply_missing_summary) =
             repair [(ascii ''analysis'', JStr (ascii ''a'')), (ascii ''insights'', JObj [])]"
    by (simp add: sample_env_simps clean_reply_missing_summary decode_reply_missing_summary)
  have a: "map_of (parse_ai_response (json_loads ?env) (JStr reply_missing_summary))
             (ascii ''analysis'') = Some (JStr (ascii ''a''))"
    unfolding p map_of_repair by (simp add: ascii_def)
  have n: "map_of (parse_ai_response (json_loads ?env) (JStr reply_missing_summary))
             (ascii ''summary'') = None"
    unfolding p map_of_repair by (simp add: ascii_def)
  have "analyze_with_ai ?env sample_request =
          fallback_response ?env (activity_data sample_request) (exn_text ?env KeyError)
            (ascii ''0'') error_summary"
    by (rule analyze_with_ai_missing_summary [OF sample_env_simps(1) h2 sample_call a n])
  then show ?thesis
    by (simp add: decode_reply_missing_summary fallback_response_def sample_env_simps
        generate_fallback_analysis_def generate_fallback_recommendations_def)
qed

lemma decode_reply_mistyped_summary:
  "json_decode (\<lambda>lexeme. 0) reply_mistyped_summary =
     Some (JObj [(ascii ''summary'', JInt 1), (ascii ''analysis'', JStr (ascii ''a''))])"
  by code_simp

lemma clean_reply_mistyped_summary:
  "re_search_braces (strip (re_sub_fences reply_mistyped_summary)) = Some reply_mistyped_summary"
  by code_simp

theorem partial_repair_of_nested_fields_witness:
  "re_search_braces (strip (re_sub_fences reply_mistyped_summary)) = Some reply_mistyped_summary \<and>
   json_decode (\<lambda>lexeme. 0) reply_mistyped_summary =
     Some (JObj [(ascii ''summary'', JInt 1), (ascii ''analysis'', JStr (ascii ''a''))]) \<and>
   analyze_with_ai (sample_env (chat_completion (JStr reply_mistyped_summary))) sample_request =
     [(ascii ''success'', JBool True),
      (ascii ''analysis'', JStr (ascii ''a'')),
      (ascii ''recommendations'', default_recommendations),
      (ascii ''insights'', default_insights),
      (ascii ''summary'', JInt 1)]"
proof -
  let ?env = "sample_env (chat_completion (JStr reply_mistyped_summary))"
  let ?data = "[(ascii ''summary'', JInt 1), (ascii ''analysis'', JStr (ascii ''a''))]"
  obtain s where h2: "prepare_activity_summary ?env (activity_data sample_request) = Inr s"
    using sample_prepare by blast
  have h5: "json_loads ?env reply_mistyped_summary = Some (JObj ?data)"
    by (simp add: sample_env_simps decode_reply_mistyped_summary)
  have h6: "map_of ?data (ascii ''summary'') = Some (JInt 1)" by (simp add: ascii_def)
  have h7: "map_of ?data (ascii ''analysis'') = Some (JStr (ascii ''a''))"
    by (simp add: ascii_def)
  have r: "repaired_recommendations ?data = default_recommendations"
    "repaired_insights ?data = default_insights"
    by (simp_all add: repaired_recommendations_def repaired_insights_def ascii_def)
  show ?thesis
    using partial_repair_of_nested_fields
            [OF sample_env_simps(1) h2 sample_call clean_reply_mistyped_summary h5 h6 h7]
    by (simp add: r clean_reply_mistyped_summary decode_reply_mistyped_summary)
qed

lemma decode_reply_with_fence:
  "json_decode (\<lambda>lexeme. 0) reply_with_fence =
     Some (JObj [(ascii ''summary'', JStr (ascii ''s'')),
                 (ascii ''analysis'', JStr (ascii ''```'')),
                 (ascii ''insights'', JObj []), (ascii ''recommendations'', JArr [])])"
  by code_simp

lemma clean_reply_with_fence:
  "re_search_braces (strip (re_sub_fences reply_with_fence)) = Some reply_with_fence_cleaned"
  by code_simp

lemma decode_reply_with_fence_cleaned:
  "json_decode (\<lambda>lexeme. 0) reply_with_fence_cleaned =
     Some (JObj [(ascii ''summary'', JStr (ascii ''s'')), (ascii ''analysis'', JStr []),
                 (ascii ''insights'', JObj []), (ascii ''recommendations'', JArr [])])"
  by code_simp

theorem fence_inside_string_counterexample:
  "json_decode (\<lambda>lexeme. 0) reply_with_fence =
     Some (JObj [(ascii ''summary'', JStr (ascii ''s'')),
                 (ascii ''analysis'', JStr (ascii ''```'')),
                 (ascii ''insights'', JObj []), (ascii ''recommendations'', JArr [])]) \<and>
   analyze_with_ai (sample_env (chat_completion (JStr reply_with_fence))) sample_request =
     [(ascii ''success'', JBool True),
      (ascii ''analysis'', JStr []),
      (ascii ''recommendations'', JArr []),
      (ascii ''insights'', JObj []),
      (ascii ''summary'', JStr (ascii ''s''))]"
proof -
  let ?env = "sample_env (chat_completion (JStr reply_with_fence))"
  let ?data = "[(ascii ''summary'', JStr (ascii ''s'')), (ascii ''analysis'', JStr []),
                (ascii ''insights'', JObj []), (ascii ''recommendations'', JArr [])]"
  obtain s where h2: "prepare_activity_summary ?env (activity_data sample_request) = Inr s"
    using sample_prepare by blast
  have h5: "json_loads ?env reply_with_fence_cleaned = Some (JObj ?data)"
    by (simp add: sample_env_simps decode_reply_with_fence_cleaned)
  have h6: "map_of ?data (ascii ''summary'') = Some (JStr (ascii ''s''))"
    by (simp add: ascii_def)
  have h7: "map_of ?data (ascii ''analysis'') = Some (JStr [])" by (simp add: ascii_def)
  have r: "repaired_recommendations ?data = JArr []" "repaired_insights ?data = JObj []"
    by (simp_all add: repaired_recommendations_def repaired_insights_def ascii_def)
  show ?thesis
    using analyze_with_ai_json_branch
            [OF sample_env_simps(1) h2 sample_call clean_reply_with_fence h5 h6 h7]
    by (simp add: r decode_reply_with_fence)
qed

lemma decode_reply_full:
  "json_decode (\<lambda>lexeme. 0) reply_full =
     Some (JObj [(ascii ''summary'', JStr (ascii ''s'')),
                 (ascii ''analysis'', JStr (ascii ''a'')),
                 (ascii ''insights'', JObj []), (ascii ''recommendations'', JArr [])])"
  by code_simp

lemma shape_reply_full:
  "\<not> has_fence reply_full" "strip reply_full = reply_full" "reply_full \<noteq> []"
  "hd reply_full = lbrace" "last reply_full = rbrace"
  by code_simp+

theorem round_trip_without_fences_witness:
  "\<not> has_fence reply_full \<and> hd (strip reply_full) = lbrace \<and> last (strip reply_full) = rbrace \<and>
   json_decode (\<lambda>lexeme. 0) (strip reply_full) =
     Some (JObj [(ascii ''summary'', JStr (ascii ''s'')),
                 (ascii ''analysis'', JStr (ascii ''a'')),
                 (ascii ''insights'', JObj []), (ascii ''recommendations'', JArr [])]) \<and>
   analyze_with_ai (sample_env (chat_completion (JStr reply_full))) sample_request =
     [(ascii ''success'', JBool True),
      (ascii ''analysis'', JStr (ascii ''a'')),
      (ascii ''recommendations'', JArr []),
      (ascii ''insights'', JObj []),
      (ascii ''summary'', JStr (ascii ''s''))]"
proof -
  let ?env = "sample_env (chat_completion (JStr reply_full))"
  let ?data = "[(ascii ''summary'', JStr (ascii ''s'')), (ascii ''analysis'', JStr (ascii ''a'')),
                (ascii ''insights'', JObj []), (ascii ''recommendations'', JArr [])]"
  obtain s where h2: "prepare_activity_summary ?env (activity_data sample_request) = Inr s"
    using sample_prepare by blast
  have h5: "strip reply_full \<noteq> []" by (simp add: shape_reply_full)
  have h6: "hd (strip reply_full) = lbrace" by (simp add: shape_reply_full)
  have h7: "last (strip reply_full) = rbrace" by (simp add: shape_reply_full)
  have h8: "json_loads ?env (strip reply_full) = Some (JObj ?data)"
    by (simp add: sample_env_simps shape_reply_full decode_reply_full)
  have h9: "map_of ?data (ascii ''summary'') = Some (JStr (ascii ''s''))"
    by (simp add: ascii_def)
  have h10: "map_of ?data (ascii ''analysis'') = Some (JStr (ascii ''a''))"
    by (simp add: ascii_def)
  have h11: "map_of ?data (ascii ''insights'') = Some (JObj [])" by (simp add: ascii_def)
  have h12: "map_of ?data (ascii ''recommendations'') = Some (JArr [])" by (simp add: ascii_def)
  show ?thesis
    using round_trip_without_fences
            [OF sample_env_simps(1) h2 sample_call shape_reply_full(1) h5 h6 h7 h8 h9 h10 h11 h12]
    by (simp add: shape_reply_full decode_reply_full)
qed

text \<open>
  A text that is not JSON as received, with a fence marker between two members: its only
  brace span is the whole text, which does not decode, yet the cleaned text does.
\<close>

lemma decode_reply_fence_between:
  "json_decode (\<lambda>lexeme. 0) reply_fence_between = None"
  "re_search_braces reply_fence_between = Some reply_fence_between"
  by code_simp+

lemma clean_reply_fence_between:
  "re_search_braces (strip (re_sub_fences reply_fence_between)) =
     Some reply_fence_between_cleaned"
  by code_simp

lemma decode_reply_fence_between_cleaned:
  "json_decode (\<lambda>lexeme. 0) reply_fence_between_cleaned =
     Some (JObj [(ascii ''summary'', JStr (ascii ''s'')),
                 (ascii ''analysis'', JStr (ascii ''a''))])"
  by code_simp

theorem fence_between_members_counterexample:
  "json_decode (\<lambda>lexeme. 0) reply_fence_between = None \<and>
   re_search_braces reply_fence_between = Some reply_fence_between \<and>
   analyze_with_ai (sample_env (chat_completion (JStr reply_fence_between))) sample_request =
     [(ascii ''success'', JBool True),
      (ascii ''analysis'', JStr (ascii ''a'')),
      (ascii ''recommendations'', default_recommendations),
      (ascii ''insights'', default_insights),
      (ascii ''summary'', JStr (ascii ''s''))]"
proof -
  let ?env = "sample_env (chat_completion (JStr reply_fence_between))"
  let ?data = "[(ascii ''summary'', JStr (ascii ''s'')), (ascii ''analysis'', JStr (ascii ''a''))]"
  obtain s where h2: "prepare_activity_summary ?env (activity_data sample_request) = Inr s"
    using sample_prepare by blast
  have h5: "json_loads ?env reply_fence_between_cleaned = Some (JObj ?data)"
    by (simp add: sample_env_simps decode_reply_fence_between_cleaned)
  have h6: "map_of ?data (ascii ''summary'') = Some (JStr (ascii ''s''))"
    by (simp add: ascii_def)
  have h7: "map_of ?data (ascii ''analysis'') = Some (JStr (ascii ''a''))"
    by (simp add: ascii_def)
  have r: "repaired_recommendations ?data = default_recommendations"
    "repaired_insights ?data = default_insights"
    by (simp_all add: repaired_recommendations_def repaired_insights_def ascii_def)
  show ?thesis
    using analyze_with_ai_json_branch
            [OF sample_env_simps(1) h2 sample_call clean_reply_fence_between h5 h6 h7]
    by (simp add: r decode_reply_fence_between)
qed

text \<open>
  A JSON array is valid JSON and holds no brace: fenced and bare, it ends in the fallback
  result, which stores the text as received.
\<close>

theorem fenced_array_counterexample:
  "json_decode (\<lambda>lexeme. 0) (ascii ''[1]'') = Some (JArr [JInt 1]) \<and>
   parse_ai_response (json_decode (\<lambda>lexeme. 0)) (JStr (fenced [10] (ascii ''[1]'') [10])) =
     default_res (JStr (fenced [10] (ascii ''[1]'') [10])) \<and>
   parse_ai_response (json_decode (\<lambda>lexeme. 0)) (JStr (ascii ''[1]'')) =
     default_res (JStr (ascii ''[1]'')) \<and>
   parse_ai_response (json_decode (\<lambda>lexeme. 0)) (JStr (fenced [10] (ascii ''[1]'') [10])) \<noteq>
     parse_ai_response (json_decode (\<lambda>lexeme. 0)) (JStr (ascii ''[1]''))"
  by code_simp

section \<open>Properties of the gateway\<close>







text \<open>
  Claim C7. When the fetch stage fails (the GitHub service cannot be reached, answers with
  an error status, with a body that is not a JSON dictionary, or with a \<open>success\<close> entry that
  is not true), the gateway raises an \<open>HTTPException\<close> (404 for status 404 and for a payload
  without success, 504 for a timeout, 502 for any other transport failure, error status or
  body that is not JSON, 500 for a JSON body that is not a dictionary), and the only call
  made is the fetch: the analytics and the database service are not invoked.
\<close>

theorem fetch_failure_aborts_pipeline:
  assumes "\<not> fetch_succeeded (reply_to net (github_call request))"
  shows "gateway_analyze_repository net request =
           (Inl (HTTPException (fetch_error (reply_to net (github_call request)))),
            [github_call request])"
proof (cases "reply_to net (github_call request)")
  case (Failed f)
  then show ?thesis
    by (cases f) (simp_all add: gateway_analyze_repository_def call_service_def)
next
  case (Reply status body)
  show ?thesis
  proof (cases body)
    case None
    then show ?thesis using Reply
      by (simp add: gateway_analyze_repository_def call_service_def)
  next
    case (Some j)
    then show ?thesis using Reply assms
      by (cases j) (auto simp: gateway_analyze_repository_def call_service_def)
  qed
qed

theorem fetch_failure_aborts_pipeline_witness:
  "\<not> fetch_succeeded (reply_to not_found_network (github_call sample_analysis_request)) \<and>
   gateway_analyze_repository not_found_network sample_analysis_request =
     (Inl (HTTPException 404), [github_call sample_analysis_request])"
proof -
  have r: "reply_to not_found_network (github_call sample_analysis_request) = Reply 404 None"
    by (simp add: reply_to_def github_call_def not_found_network_def)
  then have h: "\<not> fetch_succeeded (reply_to not_found_network
                  (github_call sample_analysis_request))"
    by simp
  show ?thesis using h fetch_failure_aborts_pipeline [OF h] by (simp add: r)
qed

section \<open>Properties of the GitHub service\<close>

lemma subscribers_guard: "(if (n::int) > 0 then n else 1) = max n 1"
  by simp

text \<open>
  Claim C8. Whenever the two dates are read and the fetchers return, the analysis returns a
  result, so no \<open>ZeroDivisionError\<close> is raised, and its \<open>activity_index\<close> is
  \<open>round((total_commits / max(subscribers_count, 1)) * 100, 2)\<close> in the floating-point
  operations of the environment. It holds for all integer counts, the non-negative ones and
  \<open>subscribers_count = 0\<close> among them.
\<close>

theorem activity_index_guarded:
  assumes "fromisoformat env (replace_Z (start_date request)) = Some start"
    and "fromisoformat env (replace_Z (end_date request)) = Some fin"
    and "timedelta_days fin start = Inr d"
    and "get_repo_info env = Inr repo_info"
    and "fetch_commits env = Inr commits_data"
    and "fetch_contributors env = Inr contributors_data"
  shows "\<exists>r. github_analyze_repository ops env request = Inr r \<and>
             activity_index r =
               round_ndigits ops
                 (fmul ops
                    (truediv ops (total_commits commits_data)
                       (max (subscribers_count repo_info) 1))
                    100)
                 2"
proof -
  have g: "py_truediv ops (total_commits commits_data) (max (subscribers_count repo_info) 1) =
           Inr (truediv ops (total_commits commits_data) (max (subscribers_count repo_info) 1))"
    by (simp add: py_truediv_def)
  show ?thesis
  proof (cases "d + 1 > 0")
    case True
    then show ?thesis using assms g
      by (simp add: github_analyze_repository_def Let_def subscribers_guard bind_exn_def
          py_truediv_def)
  next
    case False
    then show ?thesis using assms g
      by (simp add: github_analyze_repository_def Let_def subscribers_guard)
  qed
qed

text \<open>
  Claim C9, as amended. For dates with the \<open>Z\<close> suffix, the analysis window is the number of
  whole days of \<open>end_date - start_date\<close> plus one, and \<open>average_commits_per_day\<close> is
  \<open>total_commits\<close> divided by the window and rounded to 2 decimals when the window is
  positive, and the integer \<open>0\<close> otherwise. In particular 120 commits over a window of 30
  days, an end 29 whole days after the start, give the average 4.00, and with 40
  subscribers the activity index 300.00, as evaluated in exact arithmetic below.
\<close>

theorem window_days_and_average:
  assumes "fromisoformat env (replace_Z (start_date request)) = Some (Aware s)"
    and "fromisoformat env (replace_Z (end_date request)) = Some (Aware e)"
    and "get_repo_info env = Inr repo_info"
    and "fetch_commits env = Inr commits_data"
    and "fetch_contributors env = Inr contributors_data"
  shows "\<exists>r. github_analyze_repository ops env request = Inr r \<and>
             analysis_period_days r = (e - s) div 86400000000 + 1 \<and>
             average_commits_per_day r =
               (if 0 < (e - s) div 86400000000 + 1
                then FloatNum (round_ndigits ops
                       (truediv ops (total_commits commits_data)
                          ((e - s) div 86400000000 + 1)) 2)
                else IntNum 0)"
proof -
  have g: "py_truediv ops (total_commits commits_data) (max (subscribers_count repo_info) 1) =
           Inr (truediv ops (total_commits commits_data) (max (subscribers_count repo_info) 1))"
    by (simp add: py_truediv_def)
  show ?thesis
  proof (cases "0 < (e - s) div 86400000000 + 1")
    case True
    then show ?thesis using assms g
      by (simp add: github_analyze_repository_def Let_def subscribers_guard bind_exn_def
          py_truediv_def)
  next
    case False
    then show ?thesis using assms g
      by (simp add: github_analyze_repository_def Let_def subscribers_guard)
  qed
qed

lemma sample_dates:
  "iso_datetime (replace_Z (ascii ''2024-01-01T00:00:00Z'')) = Some (Aware 1704067200000000)"
  "iso_datetime (replace_Z (ascii ''2024-01-30T23:59:59Z'')) = Some (Aware 1706659199000000)"
  "iso_datetime (replace_Z (ascii ''2024-01-31T00:00:00Z'')) = Some (Aware 1706659200000000)"
  by code_simp+

lemma sample_window_inclusive:
  "github_analyze_repository exact_ops (sample_github 120 40)
     (window_request ''2024-01-01T00:00:00Z'' ''2024-01-30T23:59:59Z'') =
   Inr \<lparr>act_repo_info = \<lparr>subscribers_count = 40, repo_info_fields = []\<rparr>,
        act_commits =
          \<lparr>total_commits = 120, commits_by_author = JObj [], commits_by_day = JObj [],
           most_active_day = JNull, most_active_author = JNull\<rparr>,
        average_commits_per_day = FloatNum 4,
        act_contributors = \<lparr>contributors = JArr [], total_contributors = 0\<rparr>,
        issue_stats = JObj [], pr_stats = JObj [], language_stats = JObj [],
        analysis_period_days = 30, activity_index = 300,
        act_start_date = ascii ''2024-01-01T00:00:00Z'',
        act_end_date = ascii ''2024-01-30T23:59:59Z''\<rparr>"
  by code_simp

text \<open>
  Dates 30 whole days apart give a window of 31 days, and 120 commits the average 3.87; an
  end date before the start date gives a window that is not positive and the average 0,
  where no division is made.
\<close>

lemma sample_dates_reversed:
  "iso_datetime (replace_Z (ascii ''2024-01-03T00:00:00Z'')) = Some (Aware 1704240000000000)"
  by code_simp

lemma sample_window_reversed:
  "github_analyze_repository exact_ops (sample_github 120 40)
     (window_request ''2024-01-03T00:00:00Z'' ''2024-01-01T00:00:00Z'') =
   Inr \<lparr>act_repo_info = \<lparr>subscribers_count = 40, repo_info_fields = []\<rparr>,
        act_commits =
          \<lparr>total_commits = 120, commits_by_author = JObj [], commits_by_day = JObj [],
           most_active_day = JNull, most_active_author = JNull\<rparr>,
        average_commits_per_day = IntNum 0,
        act_contributors = \<lparr>contributors = JArr [], total_contributors = 0\<rparr>,
        issue_stats = JObj [], pr_stats = JObj [], language_stats = JObj [],
        analysis_period_days = - 1, activity_index = 300,
        act_start_date = ascii ''2024-01-03T00:00:00Z'',
        act_end_date = ascii ''2024-01-01T00:00:00Z''\<rparr>"
  by code_simp

lemma sample_window_thirty_apart:
  "github_analyze_repository exact_ops (sample_github 120 40)
     (window_request ''2024-01-01T00:00:00Z'' ''2024-01-31T00:00:00Z'') =
   Inr \<lparr>act_repo_info = \<lparr>subscribers_count = 40, repo_info_fields = []\<rparr>,
        act_commits =
          \<lparr>total_commits = 120, commits_by_author = JObj [], commits_by_day = JObj [],
           most_active_day = JNull, most_active_author = JNull\<rparr>,
        average_commits_per_day = FloatNum (387 / 100),
        act_contributors = \<lparr>contributors = JArr [], total_contributors = 0\<rparr>,
        issue_stats = JObj [], pr_stats = JObj [], language_stats = JObj [],
        analysis_period_days = 31, activity_index = 300,
        act_start_date = ascii ''2024-01-01T00:00:00Z'',
        act_end_date = ascii ''2024-01-31T00:00:00Z''\<rparr>"
  by code_simp

theorem thirty_day_difference_counterexample:
  "iso_datetime (replace_Z (ascii ''2024-01-01T00:00:00Z'')) = Some (Aware 1704067200000000) \<and>
   iso_datetime (replace_Z (ascii ''2024-01-31T00:00:00Z'')) = Some (Aware 1706659200000000) \<and>
   (1706659200000000 - 1704067200000000) div 86400000000 = (30::int) \<and>
   github_analyze_repository exact_ops (sample_github 120 40)
     (window_request ''2024-01-01T00:00:00Z'' ''2024-01-31T00:00:00Z'') =
   Inr \<lparr>act_repo_info = \<lparr>subscribers_count = 40, repo_info_fields = []\<rparr>,
        act_commits =
          \<lparr>total_commits = 120, commits_by_author = JObj [], commits_by_day = JObj [],
           most_active_day = JNull, most_active_author = JNull\<rparr>,
        average_commits_per_day = FloatNum (387 / 100),
        act_contributors = \<lparr>contributors = JArr [], total_contributors = 0\<rparr>,
        issue_stats = JObj [], pr_stats = JObj [], language_stats = JObj [],
        analysis_period_days = 31, activity_index = 300,
        act_start_date = ascii ''2024-01-01T00:00:00Z'',
        act_end_date = ascii ''2024-01-31T00:00:00Z''\<rparr> \<and>
   iso_datetime (replace_Z (ascii ''2024-01-03T00:00:00Z'')) = Some (Aware 1704240000000000) \<and>
   (1704067200000000 - 1704240000000000) div 86400000000 = (- 2::int) \<and>
   github_analyze_repository exact_ops (sample_github 120 40)
     (window_request ''2024-01-03T00:00:00Z'' ''2024-01-01T00:00:00Z'') =
   Inr \<lparr>act_repo_info = \<lparr>subscribers_count = 40, repo_info_fields = []\<rparr>,
        act_commits =
          \<lparr>total_commits = 120, commits_by_author = JObj [], commits_by_day = JObj [],
           most_active_day = JNull, most_active_author = JNull\<rparr>,
        average_commits_per_day = IntNum 0,
        act_contributors = \<lparr>contributors = JArr [], total_contributors = 0\<rparr>,
        issue_stats = JObj [], pr_stats = JObj [], language_stats = JObj [],
        analysis_period_days = - 1, activity_index = 300,
        act_start_date = ascii ''2024-01-03T00:00:00Z'',
        act_end_date = ascii ''2024-01-01T00:00:00Z''\<rparr>"
  by (simp add: sample_dates sample_dates_reversed sample_window_thirty_apart
      sample_window_reversed)

lemma sample_github_simps:
  "fromisoformat (sample_github c n) = iso_datetime"
  "get_repo_info (sample_github c n) = Inr \<lparr>subscribers_count = n, repo_info_fields = []\<rparr>"
  "fetch_commits (sample_github c n) =
     Inr \<lparr>total_commits = c, commits_by_author = JObj [], commits_by_day = JObj [],
          most_active_day = JNull, most_active_author = JNull\<rparr>"
  "fetch_contributors (sample_github c n) = Inr \<lparr>contributors = JArr [], total_contributors = 0\<rparr>"
  by (simp_all add: sample_github_def)

lemma window_request_simps:
  "start_date (window_request a b) = ascii a" "end_date (window_request a b) = ascii b"
  by (simp_all add: window_request_def)

theorem window_days_and_average_witness:
  "\<exists>r. github_analyze_repository exact_ops (sample_github 120 40)
          (window_request ''2024-01-01T00:00:00Z'' ''2024-01-30T23:59:59Z'') = Inr r \<and>
       analysis_period_days r = 30 \<and> average_commits_per_day r = FloatNum 4 \<and>
       activity_index r = 300"
proof -
  let ?env = "sample_github 120 40"
  let ?req = "window_request ''2024-01-01T00:00:00Z'' ''2024-01-30T23:59:59Z''"
  have h1: "fromisoformat ?env (replace_Z (start_date ?req)) = Some (Aware 1704067200000000)"
    by (simp add: sample_github_simps window_request_simps sample_dates)
  have h2: "fromisoformat ?env (replace_Z (end_date ?req)) = Some (Aware 1706659199000000)"
    by (simp add: sample_github_simps window_request_simps sample_dates)
  from window_days_and_average [where ops = exact_ops, OF h1 h2 sample_github_simps(2-4)]
  obtain r where r: "github_analyze_repository exact_ops ?env ?req = Inr r"
    and d: "analysis_period_days r = (1706659199000000 - 1704067200000000) div 86400000000 + 1"
    by blast
  from r have "activity_index r = 300" "average_commits_per_day r = FloatNum 4"
    by (auto simp: sample_window_inclusive)
  then show ?thesis using r d by simp
qed

theorem activity_index_guarded_witness:
  "\<exists>r. github_analyze_repository exact_ops (sample_github 7 0)
          (window_request ''2024-01-01T00:00:00Z'' ''2024-01-31T00:00:00Z'') = Inr r \<and>
       activity_index r = 700"
proof -
  let ?env = "sample_github 7 0"
  let ?req = "window_request ''2024-01-01T00:00:00Z'' ''2024-01-31T00:00:00Z''"
  have h1: "fromisoformat ?env (replace_Z (start_date ?req)) = Some (Aware 1704067200000000)"
    by (simp add: sample_github_simps window_request_simps sample_dates)
  have h2: "fromisoformat ?env (replace_Z (end_date ?req)) = Some (Aware 1706659200000000)"
    by (simp add: sample_github_simps window_request_simps sample_dates)
  have h3: "timedelta_days (Aware 1706659200000000) (Aware 1704067200000000) = Inr 30"
    by simp
  from activity_index_guarded [where ops = exact_ops, OF h1 h2 h3 sample_github_simps(2-4)]
  obtain r where r: "github_analyze_repository exact_ops ?env ?req = Inr r"
    and a: "activity_index r =
      round_ndigits exact_ops (fmul exact_ops (truediv exact_ops 7 (max 0 1)) 100) 2"
    by auto
  have "round_ndigits exact_ops (fmul exact_ops (truediv exact_ops 7 (max 0 1)) 100) 2 = 700"
    by (simp add: exact_ops_def round_half_even_def)
  then show ?thesis using r a by simp
qed

section \<open>Properties of the database service\<close>








end
